theory Spec2Isabelle
  imports Main "HOL-Library.Word"
begin

unbundle bit_operations_syntax

section \<open>Object locks and attribute reporting (wilhelm/src/locks.c)\<close>

text \<open>
  A shallow embedding of \<^verbatim>\<open>locks.c\<close>. Every C function becomes a function from
  the object it is called on to a \<^emph>\<open>run\<close>: the list of observable events it produced
  and either what stopped it (a failed assertion, or a primitive that never returns) or
  the object it left behind.
  \<^item> \<^verbatim>\<open>unsigned\<close> and \<^verbatim>\<open>SLuint32\<close> are 32-bit words;
  \<^item> \<^verbatim>\<open>pthread_t\<close> is a number, the all-zero pattern written by \<^verbatim>\<open>memset\<close> being 0;
  \<^item> a \<^verbatim>\<open>const char *\<close> is a \<open>string option\<close>, \<open>None\<close> being \<^verbatim>\<open>NULL\<close>;
  \<^item> \<^verbatim>\<open>assert\<close> is active (\<^verbatim>\<open>NDEBUG\<close> undefined): a failed assertion ends the run
    with the line of the assertion, so a statement after \<^verbatim>\<open>assert(false)\<close> is never reached;
  \<^item> the calling thread, \<^verbatim>\<open>pthread_self()\<close>, is the parameter \<open>self\<close>.
\<close>

type_synonym u32 = "32 word"
type_synonym pthread_t = nat

text \<open>\<^verbatim>\<open>IEngine\<close>: only the field the file writes.\<close>

record IEngine =
  mChangedMask :: u32

text \<open>
  \<^verbatim>\<open>IObject\<close>: the fields the file reads or writes. \<open>mMutex\<close> is the holder of the
  mutex (\<open>None\<close> when it is free), \<open>mObjectID\<close> is what \<^verbatim>\<open>IObjectToObjectID(thiz)\<close>
  reads from the object's class, and \<open>mEngine\<close> stands for
  \<^verbatim>\<open>thiz->mEngine->mEngine\<close>, the engine interface the object reports to.
\<close>

record IObject =
  mMutex :: "pthread_t option"
  mOwner :: pthread_t
  mFile :: "string option"
  mLine :: int
  mAttributesMask :: u32
  mInstanceID :: u32
  mObjectID :: u32
  mEngine :: IEngine

text \<open>
  An \<^verbatim>\<open>AttributeHandler\<close> receives the locked object through a pointer: it returns
  a mask and may leave the object (and the engine reachable from it) changed.
\<close>

type_synonym AttributeHandler = "IObject \<Rightarrow> u32 \<times> IObject"

text \<open>
  The constants and the table that \<^verbatim>\<open>sles_allinclusive.h\<close> provides, as parameters.
  \<open>handlerTable c i b = None\<close> is a \<^verbatim>\<open>NULL\<close> entry.
\<close>

record config =
  XA_OBJECTID_ENGINE :: u32
  XA_OBJECTID_CAMERADEVICE :: u32
  SL_OBJECTID_ENGINE :: u32
  SL_OBJECTID_METADATAEXTRACTOR :: u32
  ATTR_INDEX_MAX :: nat
  MAX_INSTANCE :: nat
  handlerTable :: "u32 \<Rightarrow> nat \<Rightarrow> AttributeHandler option"

text \<open>Modelled from the spec: \<^verbatim>\<open>ATTR_NONE\<close>, the empty attribute mask.\<close>

definition ATTR_NONE :: u32 where
  "ATTR_NONE = 0"

text \<open>
  What stops a call: a failed \<^verbatim>\<open>assert\<close>, with its line in \<^verbatim>\<open>locks.c\<close>, or a
  primitive that never returns, with the line of the call (the thread stays blocked).
\<close>

datatype fatal = Assert_failed nat | Blocked nat

text \<open>
  What a call does that is visible outside the object record: sleeping and logging,
  the return code of each mutex and condition-variable primitive, each pass of the
  dispatch loop (the bit scanned and, when the table entry is not \<^verbatim>\<open>NULL\<close>, the mask
  its handler returned), and the critical section on the engine.
\<close>

datatype event =
    Usleep nat
  | Mutex_trylock int
  | Mutex_lock int
  | Mutex_unlock int
  | Cond_wait int
  | Cond_signal int
  | Cond_broadcast int
  | Log_locked_by pthread_t
  | Log_recursively_locked pthread_t
  | Log_left_unlocked pthread_t
  | Scan nat "u32 option"
  | Engine_lock
  | Engine_or nat
  | Engine_unlock

type_synonym 'a run = "event list \<times> (fatal + 'a)"

definition emit :: "event \<Rightarrow> 'a run \<Rightarrow> 'a run" where
  "emit e r = (e # fst r, snd r)"

definition andthen :: "'a run \<Rightarrow> ('a \<Rightarrow> 'b run) \<Rightarrow> 'b run" where
  "andthen r f =
     (case snd r of
        Inl e \<Rightarrow> (fst r, Inl e)
      | Inr x \<Rightarrow> (fst r @ fst (f x), snd (f x)))"

definition c_assert :: "bool \<Rightarrow> nat \<Rightarrow> 'a run \<Rightarrow> 'a run" where
  "c_assert b line r = (if b then r else ([], Inl (Assert_failed line)))"

subsection \<open>The primitives the file calls\<close>

text \<open>
  Modelled from the spec: \<^verbatim>\<open>ctz\<close>, count trailing zeros, the position of the lowest
  set bit (32 for the word 0, where the source never calls it).
\<close>

definition ctz :: "u32 \<Rightarrow> nat" where
  "ctz w = length (takeWhile (\<lambda>n. \<not> bit w n) [0..<32])"

text \<open>
  Modelled from the spec: \<^verbatim>\<open>pthread_mutex_unlock\<close> by thread \<open>self\<close>. It succeeds
  with 0 when \<open>self\<close> holds the mutex and frees it, and reports an error otherwise.
\<close>

definition pthread_mutex_unlock :: "pthread_t \<Rightarrow> pthread_t option \<Rightarrow> int \<times> pthread_t option" where
  "pthread_mutex_unlock self m = (if m = Some self then (0, None) else (1, m))"








text \<open>
  Modelled from the spec: \<^verbatim>\<open>pthread_cond_wait\<close> releases the mutex, suspends the
  caller and holds the mutex again when it returns. What the other threads did to
  the object meanwhile, and the return code, is the input \<open>others\<close>, applied to the
  object as it is at the moment of suspension.
\<close>

definition pthread_cond_wait ::
  "(IObject \<Rightarrow> int \<times> IObject) \<Rightarrow> pthread_t \<Rightarrow> IObject \<Rightarrow> int \<times> IObject" where
  "pthread_cond_wait others self obj =
     (let r = others (obj\<lparr>mMutex := None\<rparr>)
      in (fst r, (snd r)\<lparr>mMutex := Some self\<rparr>))"

subsection \<open>object_unlock_exclusive_attributes\<close>

text \<open>Lines 118-126: make SL object IDs contiguous with XA object IDs.\<close>

definition normalize_objectID :: "config \<Rightarrow> u32 \<Rightarrow> u32 run" where
  "normalize_objectID c objectID =
     (if XA_OBJECTID_ENGINE c \<le> objectID \<and> objectID \<le> XA_OBJECTID_CAMERADEVICE c
      then ([], Inr objectID)
      else if SL_OBJECTID_ENGINE c \<le> objectID \<and> objectID \<le> SL_OBJECTID_METADATAEXTRACTOR c
      then ([], Inr (objectID - (SL_OBJECTID_ENGINE c - XA_OBJECTID_CAMERADEVICE c - 1)))
      else ([], Inl (Assert_failed 124)))"

text \<open>
  Lines 131-142: the dispatch loop, on the loop-control mask \<open>attributes\<close>, the working
  mask \<open>asynchronous\<close> and the object.
\<close>

function handler_loop ::
  "config \<Rightarrow> u32 \<Rightarrow> u32 \<Rightarrow> u32 \<Rightarrow> IObject \<Rightarrow> (u32 \<times> IObject) run" where
  "handler_loop c objectID attributes asynchronous obj =
     (if attributes = 0 then ([], Inr (asynchronous, obj))
      else if \<not> ctz attributes < ATTR_INDEX_MAX c then ([], Inl (Assert_failed 135))
      else
        (case handlerTable c objectID (ctz attributes) of
           None \<Rightarrow>
             emit (Scan (ctz attributes) None)
               (handler_loop c objectID (attributes AND NOT (push_bit (ctz attributes) 1))
                  asynchronous obj)
         | Some handler \<Rightarrow>
             emit (Scan (ctz attributes) (Some (fst (handler obj))))
               (handler_loop c objectID (attributes AND NOT (push_bit (ctz attributes) 1))
                  (asynchronous AND NOT (fst (handler obj))) (snd (handler obj)))))"
  by pat_completeness auto

text \<open>
  The loop ends because clearing the lowest set bit makes the loop-control mask
  smaller. The facts about \<open>ctz\<close> that show it:
\<close>

lemma ctz_le: "ctz w \<le> 32"
  unfolding ctz_def using length_takeWhile_le[of "\<lambda>n. \<not> bit w n" "[0..<32]"] by simp

lemma ctz_below: "n < ctz w \<Longrightarrow> \<not> bit w n"
proof -
  assume a: "n < ctz w"
  then have "n < length (takeWhile (\<lambda>n. \<not> bit w n) [0..<32])" by (simp add: ctz_def)
  from nth_mem[OF this] set_takeWhileD[of _ "\<lambda>n. \<not> bit w n" "[0..<32]"]
  have "\<not> bit w (takeWhile (\<lambda>n. \<not> bit w n) [0..<32] ! n)" by blast
  moreover have "takeWhile (\<lambda>n. \<not> bit w n) [0..<32] ! n = [0..<32] ! n"
    using a by (simp add: ctz_def takeWhile_nth)
  moreover have "n < 32" using a ctz_le[of w] by simp
  ultimately show ?thesis by simp
qed

lemma ctz_bit: "w \<noteq> 0 \<Longrightarrow> ctz w < 32 \<and> bit w (ctz w)"
proof -
  assume nz: "w \<noteq> 0"
  have ex: "\<exists>n<32. bit w n"
  proof (rule ccontr)
    assume "\<not> ?thesis"
    then have "\<forall>n. \<not> bit w n" using bit_imp_le_length[of w] by fastforce
    then have "w = 0" by (simp add: bit_eq_iff)
    with nz show False by simp
  qed
  have lt: "ctz w < 32"
  proof (rule ccontr)
    assume "\<not> ctz w < 32"
    then have "ctz w = 32" using ctz_le[of w] by simp
    with ctz_below[of _ w] ex show False by auto
  qed
  then have "ctz w < length [0..<32]" by simp
  from nth_length_takeWhile[of "\<lambda>n. \<not> bit w n" "[0..<32]"] this
  have "\<not> \<not> bit w ([0..<32] ! ctz w)" by (simp add: ctz_def)
  with lt show ?thesis by simp
qed

lemma clear_lowest_less: "w \<noteq> 0 \<Longrightarrow> unat (w AND NOT (2 ^ ctz w)) < unat (w::u32)"
proof -
  assume nz: "w \<noteq> 0"
  let ?v = "w AND NOT (2 ^ ctz w)"
  have le: "?v \<le> w" by (rule word_and_le2)
  have "?v \<noteq> w"
  proof
    assume "?v = w"
    then have "bit ?v (ctz w) = bit w (ctz w)" by simp
    with ctz_bit[OF nz] show False by (simp add: bit_simps)
  qed
  with le have "?v < w" by simp
  then show ?thesis by (simp add: word_less_nat_alt)
qed

termination handler_loop
  by (relation "measure (\<lambda>(c, objectID, attributes, asynchronous, obj). unat attributes)")
     (auto simp: clear_lowest_less)

text \<open>Lines 118-142: normalisation, then the loop started with both masks equal.\<close>

definition dispatch :: "config \<Rightarrow> u32 \<Rightarrow> IObject \<Rightarrow> (u32 \<times> IObject) run" where
  "dispatch c attributes obj =
     andthen (normalize_objectID c (mObjectID obj))
       (\<lambda>objectID. handler_loop c objectID attributes attributes obj)"

text \<open>
  Lines 145-151: what the handlers left is merged into \<^verbatim>\<open>mAttributesMask\<close>; the
  result is the mask that goes on to the notification test.
\<close>

definition merge_pending :: "u32 \<Rightarrow> IObject \<Rightarrow> u32 \<times> IObject" where
  "merge_pending asynchronous obj =
     (if asynchronous \<noteq> 0
      then (let oldAttributesMask = mAttributesMask obj;
                obj' = obj\<lparr>mAttributesMask := oldAttributesMask OR asynchronous\<rparr>
            in if oldAttributesMask \<noteq> 0 then (ATTR_NONE, obj') else (asynchronous, obj'))
      else (asynchronous, obj))"

text \<open>
  The three assertions that open every debug function but the lock; \<open>line\<close> is the
  line of the first.
\<close>

definition assert_owner :: "pthread_t \<Rightarrow> nat \<Rightarrow> IObject \<Rightarrow> 'a run \<Rightarrow> 'a run" where
  "assert_owner self line obj r =
     c_assert (self = mOwner obj) line
       (c_assert (mFile obj \<noteq> None) (line + 1)
          (c_assert (mLine obj \<noteq> 0) (line + 2) r))"

text \<open>
  Lines 153-159. \<open>dbg\<close> is \<open>Some (file, line)\<close> in a \<^verbatim>\<open>USE_DEBUG\<close> build, where the
  function has the two extra parameters, and \<open>None\<close> otherwise.
\<close>

definition clear_owner :: "(string option \<times> int) option \<Rightarrow> IObject \<Rightarrow> IObject" where
  "clear_owner dbg obj =
     (case dbg of
        None \<Rightarrow> obj
      | Some (file, line) \<Rightarrow> obj\<lparr>mOwner := 0, mFile := file, mLine := line\<rparr>)"

definition unlock_mutex :: "pthread_t \<Rightarrow> nat \<Rightarrow> IObject \<Rightarrow> IObject run" where
  "unlock_mutex self line obj =
     (let r = pthread_mutex_unlock self (mMutex obj)
      in emit (Mutex_unlock (fst r))
           (c_assert (fst r = 0) line ([], Inr (obj\<lparr>mMutex := snd r\<rparr>))))"

text \<open>
  Lines 162-173. \<^verbatim>\<open>interface_lock_exclusive\<close> and \<^verbatim>\<open>interface_unlock_exclusive\<close>
  are macros of the absent header: modelled from the spec as taking and releasing the
  engine's own lock, the events \<open>Engine_lock\<close> and \<open>Engine_unlock\<close>.
\<close>

definition notify_engine :: "config \<Rightarrow> u32 \<Rightarrow> IObject \<Rightarrow> IObject run" where
  "notify_engine c asynchronous obj =
     (if ATTR_NONE \<noteq> asynchronous
      then (let id = mInstanceID obj
            in if 0 \<noteq> id
               then c_assert (unat (id - 1) < MAX_INSTANCE c) 166
                      ([Engine_lock, Engine_or (unat (id - 1)), Engine_unlock],
                       Inr (obj\<lparr>mEngine := (mEngine obj)
                              \<lparr>mChangedMask :=
                                 mChangedMask (mEngine obj) OR push_bit (unat (id - 1)) 1\<rparr>\<rparr>))
               else ([], Inr obj))
      else ([], Inr obj))"

text \<open>Lines 101-175, both builds.\<close>

definition object_unlock_exclusive_attributes_body ::
  "config \<Rightarrow> (string option \<times> int) option \<Rightarrow> pthread_t \<Rightarrow> u32 \<Rightarrow> IObject \<Rightarrow> IObject run" where
  "object_unlock_exclusive_attributes_body c dbg self attributes obj =
     andthen (case dbg of None \<Rightarrow> ([], Inr ()) | Some d \<Rightarrow> assert_owner self 110 obj ([], Inr ()))
       (\<lambda>u. andthen (dispatch c attributes obj)
          (\<lambda>p. andthen
                 (unlock_mutex self 159
                    (clear_owner dbg (snd (merge_pending (fst p) (snd p)))))
                 (notify_engine c (fst (merge_pending (fst p) (snd p))))))"

definition object_unlock_exclusive_attributes_debug ::
  "config \<Rightarrow> pthread_t \<Rightarrow> u32 \<Rightarrow> string option \<Rightarrow> int \<Rightarrow> IObject \<Rightarrow> IObject run" where
  "object_unlock_exclusive_attributes_debug c self attributes file line obj =
     object_unlock_exclusive_attributes_body c (Some (file, line)) self attributes obj"

definition object_unlock_exclusive_attributes ::
  "config \<Rightarrow> pthread_t \<Rightarrow> u32 \<Rightarrow> IObject \<Rightarrow> IObject run" where
  "object_unlock_exclusive_attributes c self attributes obj =
     object_unlock_exclusive_attributes_body c None self attributes obj"

subsection \<open>object_unlock_exclusive\<close>

text \<open>Lines 75-86, the \<^verbatim>\<open>USE_DEBUG\<close> function \<^verbatim>\<open>object_unlock_exclusive_\<close>.\<close>

definition object_unlock_exclusive_debug ::
  "pthread_t \<Rightarrow> string option \<Rightarrow> int \<Rightarrow> IObject \<Rightarrow> IObject run" where
  "object_unlock_exclusive_debug self file line obj =
     assert_owner self 77 obj
       (unlock_mutex self 85 (obj\<lparr>mOwner := 0, mFile := file, mLine := line\<rparr>))"

text \<open>Lines 88-93.\<close>

definition object_unlock_exclusive :: "pthread_t \<Rightarrow> IObject \<Rightarrow> IObject run" where
  "object_unlock_exclusive self obj = unlock_mutex self 92 obj"

subsection \<open>object_lock_exclusive\<close>








subsection \<open>object_cond_wait\<close>

text \<open>Lines 181-198, the \<^verbatim>\<open>USE_DEBUG\<close> function \<^verbatim>\<open>object_cond_wait_\<close>.\<close>

definition object_cond_wait_debug ::
  "(IObject \<Rightarrow> int \<times> IObject) \<Rightarrow> pthread_t \<Rightarrow> string option \<Rightarrow> int \<Rightarrow> IObject \<Rightarrow> IObject run" where
  "object_cond_wait_debug others self file line obj =
     assert_owner self 184 obj
       (let r = pthread_cond_wait others self (obj\<lparr>mOwner := 0, mFile := file, mLine := line\<rparr>)
        in emit (Cond_wait (fst r))
             (c_assert (0 = fst r) 193
                ([], Inr ((snd r)\<lparr>mOwner := self, mFile := file, mLine := line\<rparr>))))"


subsection \<open>object_cond_signal and object_cond_broadcast\<close>



section \<open>Reading a run, and the conditions the properties need\<close>

text \<open>The bits the dispatch loop scanned, in the order of the scan.\<close>

fun scan_bits :: "event list \<Rightarrow> nat list" where
  "scan_bits [] = []"
| "scan_bits (Scan b r # es) = b # scan_bits es"
| "scan_bits (e # es) = scan_bits es"

text \<open>The union of the masks the handlers returned.\<close>

fun returned :: "event list \<Rightarrow> u32" where
  "returned [] = 0"
| "returned (Scan b (Some r) # es) = r OR returned es"
| "returned (e # es) = returned es"

text \<open>The bit numbers OR'd into the engine's mask, in order.\<close>

fun engine_ors :: "event list \<Rightarrow> nat list" where
  "engine_ors [] = []"
| "engine_ors (Engine_or n # es) = n # engine_ors es"
| "engine_ors (e # es) = engine_ors es"

text \<open>The positions of the set bits of a mask, ascending.\<close>

definition set_bits :: "u32 \<Rightarrow> nat list" where
  "set_bits w = filter (bit w) [0..<32]"

text \<open>
  The assertions at lines 110-112 hold: in a \<^verbatim>\<open>USE_DEBUG\<close> build the caller is the
  recorded owner and the provenance is set; in the other build there is nothing to check.
\<close>

definition dbg_ok :: "(string option \<times> int) option \<Rightarrow> pthread_t \<Rightarrow> IObject \<Rightarrow> bool" where
  "dbg_ok dbg self obj =
     (case dbg of None \<Rightarrow> True
      | Some d \<Rightarrow> self = mOwner obj \<and> mFile obj \<noteq> None \<and> mLine obj \<noteq> 0)"

text \<open>
  The handlers of a table leave the pending mask, the instance slot and the engine of
  the object alone (as handlers that act on the rest of the object do).
\<close>

definition handlers_keep :: "config \<Rightarrow> bool" where
  "handlers_keep c =
     (\<forall>i b h obj. handlerTable c i b = Some h \<longrightarrow>
        mAttributesMask (snd (h obj)) = mAttributesMask obj
        \<and> mInstanceID (snd (h obj)) = mInstanceID obj
        \<and> mEngine (snd (h obj)) = mEngine obj)"



text \<open>
  The object as \<^verbatim>\<open>pthread_cond_wait\<close> shows it to the other threads when a debug-build
  wait called from \<open>file\<close>, \<open>line\<close> suspends: lines 187-189 have run and the mutex is free.
\<close>

definition suspended :: "string option \<Rightarrow> int \<Rightarrow> IObject \<Rightarrow> IObject" where
  "suspended file line obj = obj\<lparr>mOwner := 0, mFile := file, mLine := line, mMutex := None\<rparr>"

text \<open>
  A run without the line of the assertion that stopped it: the events, and the object
  left behind if the run returned.
\<close>

definition outcome :: "'a run \<Rightarrow> event list \<times> 'a option" where
  "outcome r = (fst r, case snd r of Inl e \<Rightarrow> None | Inr x \<Rightarrow> Some x)"

text \<open>
  The four object-ID constants delimit two ranges, the XA range below the SL range.
\<close>

definition objectIDs_wf :: "config \<Rightarrow> bool" where
  "objectIDs_wf c =
     (XA_OBJECTID_ENGINE c \<le> XA_OBJECTID_CAMERADEVICE c
      \<and> XA_OBJECTID_CAMERADEVICE c < SL_OBJECTID_ENGINE c
      \<and> SL_OBJECTID_ENGINE c \<le> SL_OBJECTID_METADATAEXTRACTOR c)"

text \<open>
  The object as the notification test of line 162 finds it: what the loop left, merged
  (lines 145-151), with the owner cleared in a debug build and the mutex free.
\<close>

definition unlocked :: "(string option \<times> int) option \<Rightarrow> u32 \<Rightarrow> IObject \<Rightarrow> IObject" where
  "unlocked dbg a obj1 = (clear_owner dbg (snd (merge_pending a obj1)))\<lparr>mMutex := None\<rparr>"

section \<open>Examples\<close>

text \<open>
  The fixture of the examples: an XA range from 1 to 9 and an SL range from 0x1001 to
  0x100A, eight attribute bits, 32 instances, and one handler, for object ID 1 and
  bit 2, that reports bit 2 as handled.
\<close>

definition demo_config :: config where
  "demo_config =
     \<lparr>XA_OBJECTID_ENGINE = 1, XA_OBJECTID_CAMERADEVICE = 9,
      SL_OBJECTID_ENGINE = 4097, SL_OBJECTID_METADATAEXTRACTOR = 4106,
      ATTR_INDEX_MAX = 8, MAX_INSTANCE = 32,
      handlerTable = (\<lambda>i b. if i = 1 \<and> b = 2 then Some (\<lambda>obj. (4, obj)) else None)\<rparr>"

text \<open>An object of category 1 in instance slot 3, locked by thread 7, nothing pending.\<close>

definition demo_obj :: IObject where
  "demo_obj =
     \<lparr>mMutex = Some 7, mOwner = 7, mFile = Some ''a.c'', mLine = 10,
      mAttributesMask = 0, mInstanceID = 3, mObjectID = 1,
      mEngine = \<lparr>mChangedMask = 0\<rparr>\<rparr>"

text \<open>
  The object after the first report of the examples (bits 2 and 5, from the file
  \<^verbatim>\<open>b.c\<close>, line 20): bit 5 is pending and the object is unlocked.
\<close>

definition demo_reported :: IObject where
  "demo_reported =
     \<lparr>mMutex = None, mOwner = 0, mFile = Some ''b.c'', mLine = 20,
      mAttributesMask = 32, mInstanceID = 3, mObjectID = 1,
      mEngine = \<lparr>mChangedMask = 4\<rparr>\<rparr>"

text \<open>
  A second fixture: the only handler, for object ID 1 and bit 0, reports bits 0 and 1
  as handled.
\<close>

definition greedy_handler :: AttributeHandler where
  "greedy_handler obj = (3, obj)"

definition greedy_config :: config where
  "greedy_config =
     demo_config\<lparr>handlerTable := (\<lambda>i b. if i = 1 \<and> b = 0 then Some greedy_handler else None)\<rparr>"


definition demo_relocked :: IObject where
  "demo_relocked =
     \<lparr>mMutex = Some 7, mOwner = 7, mFile = Some ''c.c'', mLine = 30,
      mAttributesMask = 32, mInstanceID = 3, mObjectID = 1,
      mEngine = \<lparr>mChangedMask = 4\<rparr>\<rparr>"

definition demo_reported_twice :: IObject where
  "demo_reported_twice =
     \<lparr>mMutex = None, mOwner = 0, mFile = Some ''d.c'', mLine = 40,
      mAttributesMask = 34, mInstanceID = 3, mObjectID = 1,
      mEngine = \<lparr>mChangedMask = 4\<rparr>\<rparr>"

text \<open>
  What the other threads do while thread 7 waits, in the examples: they report bit 6
  and the wait returns 0.
\<close>

definition demo_others :: "IObject \<Rightarrow> int \<times> IObject" where
  "demo_others obj = (0, obj\<lparr>mAttributesMask := mAttributesMask obj OR 64\<rparr>)"



section \<open>Properties\<close>

subsection \<open>Auxiliary facts\<close>

declare handler_loop.simps [simp del]

lemma bit_clear_lowest:
  "bit (w AND NOT (2 ^ ctz w) :: u32) n \<longleftrightarrow> bit w n \<and> n \<noteq> ctz w"
  by (auto simp: bit_simps dest: bit_imp_le_length)

lemma set_bits_step:
  assumes nz: "w \<noteq> 0"
  shows "set_bits w = ctz w # set_bits (w AND NOT (2 ^ ctz w))"
proof -
  from ctz_bit[OF nz] have lt: "ctz w < 32" and b: "bit w (ctz w)" by simp_all
  have split: "[0..<32] = [0..<ctz w] @ ctz w # [Suc (ctz w)..<32]"
    using lt by (metis less_imp_add_positive upt_add_eq_append upt_conv_Cons zero_le)
  have low: "filter (bit w) [0..<ctz w] = []"
    by (auto simp: filter_empty_conv ctz_below)
  have low': "filter (bit (w AND NOT (2 ^ ctz w))) [0..<ctz w] = []"
    by (auto simp: filter_empty_conv bit_clear_lowest ctz_below)
  have high: "filter (bit (w AND NOT (2 ^ ctz w))) [Suc (ctz w)..<32] = filter (bit w) [Suc (ctz w)..<32]"
    by (rule filter_cong) (auto simp: bit_clear_lowest)
  have "set_bits w = ctz w # filter (bit w) [Suc (ctz w)..<32]"
    unfolding set_bits_def by (subst split) (simp add: low b)
  moreover have "set_bits (w AND NOT (2 ^ ctz w)) = filter (bit w) [Suc (ctz w)..<32]"
    unfolding set_bits_def by (subst split) (simp add: low' high bit_clear_lowest)
  ultimately show ?thesis by simp
qed

lemma set_bits_0: "set_bits 0 = []"
  by (simp add: set_bits_def)

lemma handler_loop_0: "handler_loop c oid 0 a obj = ([], Inr (a, obj))"
  by (simp add: handler_loop.simps)

lemma handler_loop_abort:
  "M \<noteq> 0 \<Longrightarrow> \<not> ctz M < ATTR_INDEX_MAX c \<Longrightarrow>
   handler_loop c oid M a obj = ([], Inl (Assert_failed 135))"
  by (simp add: handler_loop.simps)

lemma handler_loop_None:
  "M \<noteq> 0 \<Longrightarrow> ctz M < ATTR_INDEX_MAX c \<Longrightarrow> handlerTable c oid (ctz M) = None \<Longrightarrow>
   handler_loop c oid M a obj =
     emit (Scan (ctz M) None) (handler_loop c oid (M AND NOT (2 ^ ctz M)) a obj)"
  by (subst handler_loop.simps) simp

lemma handler_loop_Some:
  "M \<noteq> 0 \<Longrightarrow> ctz M < ATTR_INDEX_MAX c \<Longrightarrow> handlerTable c oid (ctz M) = Some h \<Longrightarrow>
   handler_loop c oid M a obj =
     emit (Scan (ctz M) (Some (fst (h obj))))
       (handler_loop c oid (M AND NOT (2 ^ ctz M)) (a AND NOT (fst (h obj))) (snd (h obj)))"
  by (subst handler_loop.simps) simp

lemma loop_scan_bits:
  "scan_bits (fst (handler_loop c oid M a obj)) = takeWhile (\<lambda>n. n < ATTR_INDEX_MAX c) (set_bits M)"
proof (induction c oid M a obj rule: handler_loop.induct)
  case (1 c oid M a obj)
  consider (zero) "M = 0" | (abort) "M \<noteq> 0" "\<not> ctz M < ATTR_INDEX_MAX c"
    | (null) "M \<noteq> 0" "ctz M < ATTR_INDEX_MAX c" "handlerTable c oid (ctz M) = None"
    | (call) h where "M \<noteq> 0" "ctz M < ATTR_INDEX_MAX c" "handlerTable c oid (ctz M) = Some h"
    by (cases "handlerTable c oid (ctz M)") auto
  then show ?case
  proof cases
    case zero
    then show ?thesis by (simp add: handler_loop_0 set_bits_0)
  next
    case abort
    then show ?thesis by (simp add: handler_loop_abort set_bits_step)
  next
    case null
    with "1.IH"(1) show ?thesis
      by (simp add: handler_loop_None set_bits_step[of M] emit_def)
  next
    case call
    with "1.IH"(2) show ?thesis
      by (simp add: handler_loop_Some set_bits_step[of M] emit_def)
  qed
qed

lemma loop_only_scans:
  "length (scan_bits (fst (handler_loop c oid M a obj))) = length (fst (handler_loop c oid M a obj))"
proof (induction c oid M a obj rule: handler_loop.induct)
  case (1 c oid M a obj)
  consider (zero) "M = 0" | (abort) "M \<noteq> 0" "\<not> ctz M < ATTR_INDEX_MAX c"
    | (null) "M \<noteq> 0" "ctz M < ATTR_INDEX_MAX c" "handlerTable c oid (ctz M) = None"
    | (call) h where "M \<noteq> 0" "ctz M < ATTR_INDEX_MAX c" "handlerTable c oid (ctz M) = Some h"
    by (cases "handlerTable c oid (ctz M)") auto
  then show ?case
  proof cases
    case zero
    then show ?thesis by (simp add: handler_loop_0)
  next
    case abort
    then show ?thesis by (simp add: handler_loop_abort)
  next
    case null
    with "1.IH"(1) show ?thesis by (simp add: handler_loop_None emit_def)
  next
    case call
    with "1.IH"(2) show ?thesis by (simp add: handler_loop_Some emit_def)
  qed
qed

lemma loop_returns_iff:
  "(\<exists>p. snd (handler_loop c oid M a obj) = Inr p) \<longleftrightarrow> (\<forall>n\<in>set (set_bits M). n < ATTR_INDEX_MAX c)"
proof (induction c oid M a obj rule: handler_loop.induct)
  case (1 c oid M a obj)
  consider (zero) "M = 0" | (abort) "M \<noteq> 0" "\<not> ctz M < ATTR_INDEX_MAX c"
    | (null) "M \<noteq> 0" "ctz M < ATTR_INDEX_MAX c" "handlerTable c oid (ctz M) = None"
    | (call) h where "M \<noteq> 0" "ctz M < ATTR_INDEX_MAX c" "handlerTable c oid (ctz M) = Some h"
    by (cases "handlerTable c oid (ctz M)") auto
  then show ?case
  proof cases
    case zero
    then show ?thesis by (simp add: handler_loop_0 set_bits_0)
  next
    case abort
    then show ?thesis by (simp add: handler_loop_abort set_bits_step[of M])
  next
    case null
    with "1.IH"(1) show ?thesis by (simp add: handler_loop_None emit_def set_bits_step[of M])
  next
    case call
    with "1.IH"(2) show ?thesis by (simp add: handler_loop_Some emit_def set_bits_step[of M])
  qed
qed

lemma loop_residual:
  "snd (handler_loop c oid M a obj) = Inr (a', obj') \<Longrightarrow>
   a' = a AND NOT (returned (fst (handler_loop c oid M a obj)))"
proof (induction c oid M a obj rule: handler_loop.induct)
  case (1 c oid M a obj)
  consider (zero) "M = 0" | (abort) "M \<noteq> 0" "\<not> ctz M < ATTR_INDEX_MAX c"
    | (null) "M \<noteq> 0" "ctz M < ATTR_INDEX_MAX c" "handlerTable c oid (ctz M) = None"
    | (call) h where "M \<noteq> 0" "ctz M < ATTR_INDEX_MAX c" "handlerTable c oid (ctz M) = Some h"
    by (cases "handlerTable c oid (ctz M)") auto
  then show ?case
  proof cases
    case zero
    with "1.prems" show ?thesis by (simp add: handler_loop_0)
  next
    case abort
    with "1.prems" show ?thesis by (simp add: handler_loop_abort)
  next
    case null
    with "1.IH"(1) "1.prems" show ?thesis by (simp add: handler_loop_None emit_def)
  next
    case call
    with "1.IH"(2) "1.prems" show ?thesis
      by (simp add: handler_loop_Some emit_def and.assoc)
  qed
qed

lemma andthen_Inl: "snd r = Inl e \<Longrightarrow> andthen r f = (fst r, Inl e)"
  by (simp add: andthen_def)

lemma andthen_Inr: "snd r = Inr x \<Longrightarrow> andthen r f = (fst r @ fst (f x), snd (f x))"
  by (simp add: andthen_def)

lemma unlock_mutex_held:
  "mMutex obj = Some self \<Longrightarrow>
   unlock_mutex self l obj = ([Mutex_unlock 0], Inr (obj\<lparr>mMutex := None\<rparr>))"
  by (simp add: unlock_mutex_def pthread_mutex_unlock_def emit_def c_assert_def)

lemma unlock_mutex_not_held:
  "mMutex obj \<noteq> Some self \<Longrightarrow>
   unlock_mutex self l obj = ([Mutex_unlock 1], Inl (Assert_failed l))"
  by (simp add: unlock_mutex_def pthread_mutex_unlock_def emit_def c_assert_def)

lemma mMutex_clear_owner: "mMutex (clear_owner dbg obj) = mMutex obj"
  by (simp add: clear_owner_def split: option.splits)

lemma mMutex_merge_pending: "mMutex (snd (merge_pending a obj)) = mMutex obj"
  by (simp add: merge_pending_def Let_def)

lemma entry_asserts:
  "(case dbg of None \<Rightarrow> ([], Inr ()) | Some d \<Rightarrow> assert_owner self 110 obj ([], Inr ())) =
     (if dbg_ok dbg self obj then ([], Inr ())
      else ([], Inl (Assert_failed
        (if self \<noteq> mOwner obj then 110 else if mFile obj = None then 111 else 112))))"
  by (simp add: dbg_ok_def assert_owner_def c_assert_def split: option.splits)

lemma body_eq:
  assumes "dbg_ok dbg self obj" and "dispatch c M obj = (tr1, Inr (a, obj1))"
    and "mMutex obj1 = Some self"
  shows "object_unlock_exclusive_attributes_body c dbg self M obj =
           (tr1 @ Mutex_unlock 0 #
              fst (notify_engine c (fst (merge_pending a obj1))
                     ((clear_owner dbg (snd (merge_pending a obj1)))\<lparr>mMutex := None\<rparr>)),
            snd (notify_engine c (fst (merge_pending a obj1))
                   ((clear_owner dbg (snd (merge_pending a obj1)))\<lparr>mMutex := None\<rparr>)))"
  unfolding object_unlock_exclusive_attributes_body_def entry_asserts
  using assms
  by (simp add: andthen_Inr unlock_mutex_held mMutex_clear_owner mMutex_merge_pending)

lemma body_run:
  assumes run: "snd (object_unlock_exclusive_attributes_body c dbg self M obj) = Inr obj'"
  shows "\<exists>tr1 a obj1. dispatch c M obj = (tr1, Inr (a, obj1)) \<and>
           dbg_ok dbg self obj \<and> mMutex obj1 = Some self"
proof -
  have ok: "dbg_ok dbg self obj"
  proof (rule ccontr)
    assume "\<not> dbg_ok dbg self obj"
    then have "\<exists>e. snd (object_unlock_exclusive_attributes_body c dbg self M obj) = Inl e"
      unfolding object_unlock_exclusive_attributes_body_def entry_asserts
      by (simp add: andthen_Inl)
    with run show False by auto
  qed
  obtain tr1 r1 where d: "dispatch c M obj = (tr1, r1)" by (cases "dispatch c M obj")
  show ?thesis
  proof (cases r1)
    case (Inl e)
    with ok d have "snd (object_unlock_exclusive_attributes_body c dbg self M obj) = Inl e"
      unfolding object_unlock_exclusive_attributes_body_def entry_asserts
      by (simp add: andthen_Inr andthen_Inl)
    with run show ?thesis by simp
  next
    case (Inr p)
    obtain a obj1 where p: "p = (a, obj1)" by (cases p)
    have "mMutex obj1 = Some self"
    proof (rule ccontr)
      assume "mMutex obj1 \<noteq> Some self"
      with ok d Inr p have "snd (object_unlock_exclusive_attributes_body c dbg self M obj) = Inl (Assert_failed 159)"
        unfolding object_unlock_exclusive_attributes_body_def entry_asserts
        by (simp add: andthen_Inr andthen_Inl unlock_mutex_not_held mMutex_clear_owner mMutex_merge_pending)
      with run show False by simp
    qed
    with ok d Inr p show ?thesis by simp
  qed
qed

lemma demo_set_bits: "set_bits 36 = [2, 5]"
  by code_simp

lemma set_set_bits: "set (set_bits M) = {n. bit M n}"
  by (auto simp: set_bits_def dest: bit_imp_le_length)

lemma distinct_set_bits: "distinct (set_bits M)"
  by (simp add: set_bits_def)

lemma sorted_set_bits: "sorted_wrt (<) (set_bits M)"
  by (simp add: set_bits_def sorted_wrt_filter)

lemma length_set_bits: "length (set_bits M) = card {n. bit M n}"
  using distinct_card[OF distinct_set_bits, of M] by (simp add: set_set_bits)

lemma sorted_wrt_takeWhile: "sorted_wrt R xs \<Longrightarrow> sorted_wrt R (takeWhile P xs)"
  by (induction xs) (auto dest: set_takeWhileD)

lemma demo_bits_in_range: "\<forall>n. bit (36 :: u32) n \<longrightarrow> n < ATTR_INDEX_MAX demo_config"
proof -
  have "\<forall>n\<in>set (set_bits 36). n < ATTR_INDEX_MAX demo_config"
    by (simp add: demo_set_bits demo_config_def)
  then show ?thesis by (simp add: set_set_bits)
qed

lemma dispatch_Inr:
  assumes "dispatch c M obj = (tr1, Inr (a, obj1))"
  shows "\<exists>oid. normalize_objectID c (mObjectID obj) = ([], Inr oid) \<and>
           handler_loop c oid M M obj = (tr1, Inr (a, obj1))"
proof (cases "snd (normalize_objectID c (mObjectID obj))")
  case (Inl e)
  with assms show ?thesis by (simp add: dispatch_def andthen_Inl)
next
  case (Inr oid)
  have "fst (normalize_objectID c (mObjectID obj)) = []"
    by (simp add: normalize_objectID_def)
  with Inr have n: "normalize_objectID c (mObjectID obj) = ([], Inr oid)"
    by (simp add: prod_eq_iff)
  with assms have "handler_loop c oid M M obj = (tr1, Inr (a, obj1))"
    by (simp add: dispatch_def andthen_Inr)
  with n show ?thesis by blast
qed

lemma dispatch_residual:
  assumes "dispatch c M obj = (tr1, Inr (a, obj1))"
  shows "a = M AND NOT (returned tr1)"
proof -
  from dispatch_Inr[OF assms] obtain oid where
    l: "handler_loop c oid M M obj = (tr1, Inr (a, obj1))" by blast
  then have "snd (handler_loop c oid M M obj) = Inr (a, obj1)" by simp
  from loop_residual[OF this] l show ?thesis by simp
qed

lemma dispatch_scan_bits:
  assumes "dispatch c M obj = (tr1, Inr (a, obj1))"
  shows "scan_bits tr1 = set_bits M"
proof -
  from dispatch_Inr[OF assms] obtain oid where
    l: "handler_loop c oid M M obj = (tr1, Inr (a, obj1))" by blast
  then have "\<exists>p. snd (handler_loop c oid M M obj) = Inr p" by simp
  then have "\<forall>n\<in>set (set_bits M). n < ATTR_INDEX_MAX c" by (simp only: loop_returns_iff)
  then have "takeWhile (\<lambda>n. n < ATTR_INDEX_MAX c) (set_bits M) = set_bits M" by simp
  with loop_scan_bits[of c oid M M obj] l show ?thesis by simp
qed

lemma mask_split: "(M AND r) OR (M AND NOT r) = (M :: u32)"
  by (rule bit_word_eqI) (auto simp: bit_simps)

lemma mask_disjoint: "(M AND r) AND (M AND NOT r) = (0 :: u32)"
  by (rule bit_word_eqI) (auto simp: bit_simps)

lemma merge_pending_mask [simp]:
  "mAttributesMask (snd (merge_pending a obj)) = mAttributesMask obj OR a"
  by (simp add: merge_pending_def Let_def)

lemma merge_pending_other [simp]:
  "mInstanceID (snd (merge_pending a obj)) = mInstanceID obj"
  "mEngine (snd (merge_pending a obj)) = mEngine obj"
  by (simp_all add: merge_pending_def Let_def)

lemma merge_pending_fst:
  "fst (merge_pending a obj) = (if mAttributesMask obj = 0 then a else 0)"
  by (simp add: merge_pending_def Let_def ATTR_NONE_def)

lemma clear_owner_other [simp]:
  "mAttributesMask (clear_owner dbg obj) = mAttributesMask obj"
  "mInstanceID (clear_owner dbg obj) = mInstanceID obj"
  "mEngine (clear_owner dbg obj) = mEngine obj"
  by (simp_all add: clear_owner_def split: option.splits)

lemma notify_skip:
  "a = 0 \<or> mInstanceID obj = 0 \<Longrightarrow> notify_engine c a obj = ([], Inr obj)"
  by (auto simp: notify_engine_def ATTR_NONE_def)

lemma notify_fire:
  "a \<noteq> 0 \<Longrightarrow> mInstanceID obj \<noteq> 0 \<Longrightarrow> unat (mInstanceID obj - 1) < MAX_INSTANCE c \<Longrightarrow>
   notify_engine c a obj =
     ([Engine_lock, Engine_or (unat (mInstanceID obj - 1)), Engine_unlock],
      Inr (obj\<lparr>mEngine := (mEngine obj)
             \<lparr>mChangedMask :=
                mChangedMask (mEngine obj) OR push_bit (unat (mInstanceID obj - 1)) 1\<rparr>\<rparr>))"
  by (simp add: notify_engine_def ATTR_NONE_def c_assert_def Let_def)

lemma notify_assert:
  "a \<noteq> 0 \<Longrightarrow> mInstanceID obj \<noteq> 0 \<Longrightarrow> \<not> unat (mInstanceID obj - 1) < MAX_INSTANCE c \<Longrightarrow>
   notify_engine c a obj = ([], Inl (Assert_failed 166))"
  by (simp add: notify_engine_def ATTR_NONE_def c_assert_def Let_def)

lemma notify_keeps:
  assumes "snd (notify_engine c a obj) = Inr obj'"
  shows "mAttributesMask obj' = mAttributesMask obj \<and> mMutex obj' = mMutex obj
         \<and> mInstanceID obj' = mInstanceID obj \<and> mOwner obj' = mOwner obj
         \<and> mFile obj' = mFile obj \<and> mLine obj' = mLine obj"
proof (cases "a = 0 \<or> mInstanceID obj = 0")
  case True
  with assms show ?thesis by (simp add: notify_skip)
next
  case False
  then have nz: "a \<noteq> 0" "mInstanceID obj \<noteq> 0" by simp_all
  show ?thesis
  proof (cases "unat (mInstanceID obj - 1) < MAX_INSTANCE c")
    case True
    from notify_fire[OF nz True] assms show ?thesis by auto
  next
    case False
    from notify_assert[OF nz False] assms show ?thesis by simp
  qed
qed

lemma unlocked_fields [simp]:
  "mAttributesMask (unlocked dbg a obj1) = mAttributesMask obj1 OR a"
  "mInstanceID (unlocked dbg a obj1) = mInstanceID obj1"
  "mEngine (unlocked dbg a obj1) = mEngine obj1"
  "mMutex (unlocked dbg a obj1) = None"
  by (simp_all add: unlocked_def)

lemma body_eq':
  assumes "dbg_ok dbg self obj" and "dispatch c M obj = (tr1, Inr (a, obj1))"
    and "mMutex obj1 = Some self"
  shows "object_unlock_exclusive_attributes_body c dbg self M obj =
           (tr1 @ Mutex_unlock 0 #
              fst (notify_engine c (if mAttributesMask obj1 = 0 then a else 0) (unlocked dbg a obj1)),
            snd (notify_engine c (if mAttributesMask obj1 = 0 then a else 0) (unlocked dbg a obj1)))"
  using body_eq[OF assms] by (simp only: unlocked_def merge_pending_fst)

lemma demo_report:
  "object_unlock_exclusive_attributes_body demo_config (Some (Some ''b.c'', 20)) 7 36 demo_obj =
     ([Scan 2 (Some 4), Scan 5 None, Mutex_unlock 0, Engine_lock, Engine_or 2, Engine_unlock],
      Inr demo_reported)"
  by code_simp

lemma demo_dispatch:
  "dispatch demo_config 36 demo_obj = ([Scan 2 (Some 4), Scan 5 None], Inr (32, demo_obj))"
  by code_simp

lemma engine_ors_append [simp]: "engine_ors (xs @ ys) = engine_ors xs @ engine_ors ys"
  by (induction xs rule: engine_ors.induct) auto

lemma loop_no_engine_ors: "engine_ors (fst (handler_loop c oid M a obj)) = []"
proof (induction c oid M a obj rule: handler_loop.induct)
  case (1 c oid M a obj)
  consider (zero) "M = 0" | (abort) "M \<noteq> 0" "\<not> ctz M < ATTR_INDEX_MAX c"
    | (null) "M \<noteq> 0" "ctz M < ATTR_INDEX_MAX c" "handlerTable c oid (ctz M) = None"
    | (call) h where "M \<noteq> 0" "ctz M < ATTR_INDEX_MAX c" "handlerTable c oid (ctz M) = Some h"
    by (cases "handlerTable c oid (ctz M)") auto
  then show ?case
  proof cases
    case zero
    then show ?thesis by (simp add: handler_loop_0)
  next
    case abort
    then show ?thesis by (simp add: handler_loop_abort)
  next
    case null
    with "1.IH"(1) show ?thesis by (simp add: handler_loop_None emit_def)
  next
    case call
    with "1.IH"(2) show ?thesis by (simp add: handler_loop_Some emit_def)
  qed
qed

lemma dispatch_no_engine_ors:
  assumes "dispatch c M obj = (tr1, Inr (a, obj1))"
  shows "engine_ors tr1 = []"
proof -
  from dispatch_Inr[OF assms] obtain oid where
    "handler_loop c oid M M obj = (tr1, Inr (a, obj1))" by blast
  with loop_no_engine_ors[of c oid M M obj] show ?thesis by simp
qed

lemma greedy_report:
  "object_unlock_exclusive_attributes_body greedy_config None 7 3 demo_obj =
     ([Scan 0 (Some 3), Scan 1 None, Mutex_unlock 0], Inr (demo_obj\<lparr>mMutex := None\<rparr>))"
  by code_simp

lemma greedy_entry:
  "3 \<noteq> (0 :: u32) \<and> ctz 3 < ATTR_INDEX_MAX greedy_config
   \<and> handlerTable greedy_config 1 (ctz 3) = Some greedy_handler"
proof -
  have "ctz 3 = 0" by code_simp
  then show ?thesis by (simp add: greedy_config_def demo_config_def)
qed

lemma greedy_dispatch:
  "dispatch greedy_config 3 demo_obj = ([Scan 0 (Some 3), Scan 1 None], Inr (0, demo_obj))"
  by code_simp


lemma demo_second_report:
  "object_unlock_exclusive_attributes_body demo_config (Some (Some ''d.c'', 40)) 7 2 demo_relocked =
     ([Scan 1 None, Mutex_unlock 0], Inr demo_reported_twice)"
  by code_simp

lemma demo_second_dispatch:
  "dispatch demo_config 2 demo_relocked = ([Scan 1 None], Inr (2, demo_relocked))"
  by code_simp

lemma loop_keeps:
  "handlers_keep c \<Longrightarrow> snd (handler_loop c oid M a obj) = Inr (a', obj') \<Longrightarrow>
   mAttributesMask obj' = mAttributesMask obj \<and> mInstanceID obj' = mInstanceID obj
   \<and> mEngine obj' = mEngine obj"
proof (induction c oid M a obj rule: handler_loop.induct)
  case (1 c oid M a obj)
  consider (zero) "M = 0" | (abort) "M \<noteq> 0" "\<not> ctz M < ATTR_INDEX_MAX c"
    | (null) "M \<noteq> 0" "ctz M < ATTR_INDEX_MAX c" "handlerTable c oid (ctz M) = None"
    | (call) h where "M \<noteq> 0" "ctz M < ATTR_INDEX_MAX c" "handlerTable c oid (ctz M) = Some h"
    by (cases "handlerTable c oid (ctz M)") auto
  then show ?case
  proof cases
    case zero
    with "1.prems" show ?thesis by (simp add: handler_loop_0)
  next
    case abort
    with "1.prems" show ?thesis by (simp add: handler_loop_abort)
  next
    case null
    with "1.IH"(1) "1.prems" show ?thesis by (simp add: handler_loop_None emit_def)
  next
    case call
    from call "1.prems"(1) have k: "mAttributesMask (snd (h obj)) = mAttributesMask obj
        \<and> mInstanceID (snd (h obj)) = mInstanceID obj \<and> mEngine (snd (h obj)) = mEngine obj"
      unfolding handlers_keep_def by blast
    from call "1.prems"(2)
    have "snd (handler_loop c oid (M AND NOT (push_bit (ctz M) 1)) (a AND NOT (fst (h obj)))
            (snd (h obj))) = Inr (a', obj')"
      by (simp add: handler_loop_Some emit_def)
    from "1.IH"(2)[OF _ _ call(3) "1.prems"(1) this] call k show ?thesis by simp
  qed
qed

lemma dispatch_keeps:
  assumes "handlers_keep c" and "dispatch c M obj = (tr1, Inr (a, obj1))"
  shows "mAttributesMask obj1 = mAttributesMask obj \<and> mInstanceID obj1 = mInstanceID obj
   \<and> mEngine obj1 = mEngine obj"
proof -
  from dispatch_Inr[OF assms(2)] obtain oid where
    "handler_loop c oid M M obj = (tr1, Inr (a, obj1))" by blast
  then have "snd (handler_loop c oid M M obj) = Inr (a, obj1)" by simp
  from loop_keeps[OF assms(1) this] show ?thesis .
qed

lemma body_result:
  assumes run: "object_unlock_exclusive_attributes_body c dbg self M obj = (tr, Inr obj')"
    and d: "dispatch c M obj = (tr1, Inr (a, obj1))"
  shows "engine_ors tr =
           (if a \<noteq> 0 \<and> mAttributesMask obj1 = 0 \<and> mInstanceID obj1 \<noteq> 0
            then [unat (mInstanceID obj1 - 1)] else [])"
    and "mAttributesMask obj' = mAttributesMask obj1 OR a"
    and "mInstanceID obj' = mInstanceID obj1"
    and "mChangedMask (mEngine obj') =
           (if a \<noteq> 0 \<and> mAttributesMask obj1 = 0 \<and> mInstanceID obj1 \<noteq> 0
            then mChangedMask (mEngine obj1) OR push_bit (unat (mInstanceID obj1 - 1)) 1
            else mChangedMask (mEngine obj1))"
proof -
  from run have "snd (object_unlock_exclusive_attributes_body c dbg self M obj) = Inr obj'"
    by simp
  from body_run[OF this] d have ok: "dbg_ok dbg self obj" and m: "mMutex obj1 = Some self"
    by simp_all
  note eq = body_eq'[OF ok d m]
  let ?a = "if mAttributesMask obj1 = 0 then a else 0"
  from eq run have tr: "tr = tr1 @ Mutex_unlock 0 # fst (notify_engine c ?a (unlocked dbg a obj1))"
    and n: "snd (notify_engine c ?a (unlocked dbg a obj1)) = Inr obj'"
    by simp_all
  note e1 = dispatch_no_engine_ors[OF d]
  from notify_keeps[OF n] show "mAttributesMask obj' = mAttributesMask obj1 OR a"
    and "mInstanceID obj' = mInstanceID obj1" by simp_all
  show "engine_ors tr =
           (if a \<noteq> 0 \<and> mAttributesMask obj1 = 0 \<and> mInstanceID obj1 \<noteq> 0
            then [unat (mInstanceID obj1 - 1)] else [])"
   and "mChangedMask (mEngine obj') =
           (if a \<noteq> 0 \<and> mAttributesMask obj1 = 0 \<and> mInstanceID obj1 \<noteq> 0
            then mChangedMask (mEngine obj1) OR push_bit (unat (mInstanceID obj1 - 1)) 1
            else mChangedMask (mEngine obj1))"
  proof (atomize (full), cases "?a = 0 \<or> mInstanceID (unlocked dbg a obj1) = 0")
    case True
    from notify_skip[OF True] n tr e1 True
    show "engine_ors tr =
           (if a \<noteq> 0 \<and> mAttributesMask obj1 = 0 \<and> mInstanceID obj1 \<noteq> 0
            then [unat (mInstanceID obj1 - 1)] else []) \<and>
          mChangedMask (mEngine obj') =
           (if a \<noteq> 0 \<and> mAttributesMask obj1 = 0 \<and> mInstanceID obj1 \<noteq> 0
            then mChangedMask (mEngine obj1) OR push_bit (unat (mInstanceID obj1 - 1)) 1
            else mChangedMask (mEngine obj1))"
      by (auto split: if_splits)
  next
    case False
    then have nz: "?a \<noteq> 0" "mInstanceID (unlocked dbg a obj1) \<noteq> 0" by simp_all
    have r: "unat (mInstanceID (unlocked dbg a obj1) - 1) < MAX_INSTANCE c"
    proof (rule ccontr)
      assume "\<not> ?thesis"
      from notify_assert[OF nz this] n show False by simp
    qed
    from notify_fire[OF nz r] n tr e1 False
    show "engine_ors tr =
           (if a \<noteq> 0 \<and> mAttributesMask obj1 = 0 \<and> mInstanceID obj1 \<noteq> 0
            then [unat (mInstanceID obj1 - 1)] else []) \<and>
          mChangedMask (mEngine obj') =
           (if a \<noteq> 0 \<and> mAttributesMask obj1 = 0 \<and> mInstanceID obj1 \<noteq> 0
            then mChangedMask (mEngine obj1) OR push_bit (unat (mInstanceID obj1 - 1)) 1
            else mChangedMask (mEngine obj1))"
      by (auto simp del: push_bit_of_1 split: if_splits)
  qed
qed

lemma demo_handlers_keep: "handlers_keep demo_config"
  by (simp add: handlers_keep_def demo_config_def)




























lemma assert_owner_eq:
  "assert_owner self l obj r =
     (if self = mOwner obj \<and> mFile obj \<noteq> None \<and> mLine obj \<noteq> 0 then r
      else ([], Inl (Assert_failed
        (if self \<noteq> mOwner obj then l else if mFile obj = None then l + 1 else l + 2))))"
  by (simp add: assert_owner_def c_assert_def)

lemma unlock_mutex_Inr:
  "snd (unlock_mutex self l obj) = Inr obj' \<Longrightarrow>
   mMutex obj = Some self \<and> obj' = obj\<lparr>mMutex := None\<rparr>"
  by (cases "mMutex obj = Some self") (simp_all add: unlock_mutex_held unlock_mutex_not_held)


lemma cond_wait_debug_Inr:
  assumes "snd (object_cond_wait_debug others self file line obj) = Inr obj'"
  shows "self = mOwner obj \<and> mFile obj \<noteq> None \<and> mLine obj \<noteq> 0 \<and>
         fst (others (obj\<lparr>mOwner := 0, mFile := file, mLine := line, mMutex := None\<rparr>)) = 0 \<and>
         obj' = (snd (others (obj\<lparr>mOwner := 0, mFile := file, mLine := line, mMutex := None\<rparr>)))
                  \<lparr>mMutex := Some self, mOwner := self, mFile := file, mLine := line\<rparr>"
proof -
  from assms have ok: "self = mOwner obj \<and> mFile obj \<noteq> None \<and> mLine obj \<noteq> 0"
    by (auto simp: object_cond_wait_debug_def assert_owner_eq split: if_splits)
  with assms show ?thesis
    by (auto simp: object_cond_wait_debug_def assert_owner_eq pthread_cond_wait_def Let_def
        emit_def c_assert_def split: if_splits)
qed













lemma cond_wait_debug_eq:
  "object_cond_wait_debug others self file line obj =
     (if self = mOwner obj \<and> mFile obj \<noteq> None \<and> mLine obj \<noteq> 0
      then (if fst (others (suspended file line obj)) = 0
            then ([Cond_wait 0],
                  Inr ((snd (others (suspended file line obj)))
                         \<lparr>mMutex := Some self, mOwner := self, mFile := file, mLine := line\<rparr>))
            else ([Cond_wait (fst (others (suspended file line obj)))],
                  Inl (Assert_failed 193)))
      else ([], Inl (Assert_failed
        (if self \<noteq> mOwner obj then 184 else if mFile obj = None then 185 else 186))))"
  by (simp add: object_cond_wait_debug_def assert_owner_eq pthread_cond_wait_def Let_def
      emit_def c_assert_def suspended_def)

lemma demo_wait_run:
  "object_cond_wait_debug demo_others 7 (Some ''w.c'') 60 demo_obj =
     ([Cond_wait 0],
      Inr (demo_obj\<lparr>mMutex := Some 7, mOwner := 7, mFile := Some ''w.c'', mLine := 60,
            mAttributesMask := 64\<rparr>))"
  by code_simp

lemma dispatch_0:
  "normalize_objectID c (mObjectID obj) = ([], Inr i) \<Longrightarrow> dispatch c 0 obj = ([], Inr (0, obj))"
  by (simp add: dispatch_def andthen_Inr handler_loop_0)

lemma merge_pending_0: "merge_pending 0 obj = (0, obj)"
  by (simp add: merge_pending_def)

lemma body_0:
  assumes "normalize_objectID c (mObjectID obj) = ([], Inr i)"
  shows "object_unlock_exclusive_attributes_body c dbg self 0 obj =
           (if dbg_ok dbg self obj then unlock_mutex self 159 (clear_owner dbg obj)
            else ([], Inl (Assert_failed
              (if self \<noteq> mOwner obj then 110 else if mFile obj = None then 111 else 112))))"
proof (cases "dbg_ok dbg self obj")
  case False
  then show ?thesis
    unfolding object_unlock_exclusive_attributes_body_def entry_asserts
    by (simp add: andthen_Inl)
next
  case ok: True
  show ?thesis
  proof (cases "mMutex obj = Some self")
    case True
    with ok show ?thesis
      unfolding object_unlock_exclusive_attributes_body_def entry_asserts
      by (simp add: andthen_Inr dispatch_0[OF assms] merge_pending_0 unlock_mutex_held
          mMutex_clear_owner notify_skip)
  next
    case False
    with ok show ?thesis
      unfolding object_unlock_exclusive_attributes_body_def entry_asserts
      by (simp add: andthen_Inr andthen_Inl dispatch_0[OF assms] merge_pending_0
          unlock_mutex_not_held mMutex_clear_owner)
  qed
qed

lemma outcome_unlock_mutex:
  "outcome (unlock_mutex self l obj) = outcome (unlock_mutex self l' obj)"
  by (cases "mMutex obj = Some self")
     (simp_all add: outcome_def unlock_mutex_held unlock_mutex_not_held)

lemma demo_normalize: "normalize_objectID demo_config (mObjectID demo_obj) = ([], Inr 1)"
  by code_simp

lemma demo_unlock_debug_run:
  "object_unlock_exclusive_debug 7 (Some ''e.c'') 50 demo_obj =
     ([Mutex_unlock 0],
      Inr (demo_obj\<lparr>mOwner := 0, mFile := Some ''e.c'', mLine := 50, mMutex := None\<rparr>))"
  by code_simp

lemma demo_unlock_run:
  "object_unlock_exclusive 7 demo_obj = ([Mutex_unlock 0], Inr (demo_obj\<lparr>mMutex := None\<rparr>))"
  by code_simp

lemma normalize_A:
  "XA_OBJECTID_ENGINE c \<le> oid \<Longrightarrow> oid \<le> XA_OBJECTID_CAMERADEVICE c \<Longrightarrow>
   normalize_objectID c oid = ([], Inr oid)"
  by (simp add: normalize_objectID_def)

lemma normalize_B:
  "objectIDs_wf c \<Longrightarrow> SL_OBJECTID_ENGINE c \<le> oid \<Longrightarrow> oid \<le> SL_OBJECTID_METADATAEXTRACTOR c \<Longrightarrow>
   normalize_objectID c oid =
     ([], Inr (oid - (SL_OBJECTID_ENGINE c - XA_OBJECTID_CAMERADEVICE c - 1)))"
  by (auto simp: normalize_objectID_def objectIDs_wf_def)

lemma normalize_out:
  "\<not> (XA_OBJECTID_ENGINE c \<le> oid \<and> oid \<le> XA_OBJECTID_CAMERADEVICE c) \<Longrightarrow>
   \<not> (SL_OBJECTID_ENGINE c \<le> oid \<and> oid \<le> SL_OBJECTID_METADATAEXTRACTOR c) \<Longrightarrow>
   normalize_objectID c oid = ([], Inl (Assert_failed 124))"
  by (simp add: normalize_objectID_def)

lemma unat_B:
  fixes xa sl oid :: u32
  assumes "xa < sl" "sl \<le> oid"
  shows "unat (oid - (sl - xa - 1)) = unat xa + 1 + (unat oid - unat sl)"
proof -
  from assms have n: "unat xa < unat sl" "unat sl \<le> unat oid"
    by (simp_all add: word_less_nat_alt word_le_nat_alt)
  from assms(1) have d: "unat (sl - xa) = unat sl - unat xa"
    by (simp add: unat_sub)
  have "1 \<le> sl - xa"
    using n d by (simp add: word_le_nat_alt)
  then have o: "unat (sl - xa - 1) = unat sl - unat xa - 1"
    using d by (simp add: unat_sub)
  have "sl - xa - 1 \<le> oid"
    using n o by (simp add: word_le_nat_alt)
  then have "unat (oid - (sl - xa - 1)) = unat oid - (unat sl - unat xa - 1)"
    using o by (simp add: unat_sub)
  with n show ?thesis by simp
qed

lemma body_bad_category:
  assumes "normalize_objectID c (mObjectID obj) = ([], Inl (Assert_failed 124))"
  shows "fst (object_unlock_exclusive_attributes_body c dbg self M obj) = [] \<and>
         (\<exists>l. snd (object_unlock_exclusive_attributes_body c dbg self M obj) = Inl (Assert_failed l))"
proof (cases "dbg_ok dbg self obj")
  case False
  then show ?thesis
    unfolding object_unlock_exclusive_attributes_body_def entry_asserts
    by (simp add: andthen_Inl)
next
  case True
  from assms have "dispatch c M obj = ([], Inl (Assert_failed 124))"
    by (simp add: dispatch_def andthen_Inl)
  with True show ?thesis
    unfolding object_unlock_exclusive_attributes_body_def entry_asserts
    by (simp add: andthen_Inl andthen_Inr)
qed

lemma normalize_Inr_cases:
  assumes wf: "objectIDs_wf c" and n: "normalize_objectID c oid = ([], Inr i)"
  shows "(XA_OBJECTID_ENGINE c \<le> oid \<and> oid \<le> XA_OBJECTID_CAMERADEVICE c \<and> i = oid) \<or>
         (SL_OBJECTID_ENGINE c \<le> oid \<and> oid \<le> SL_OBJECTID_METADATAEXTRACTOR c \<and>
          i = oid - (SL_OBJECTID_ENGINE c - XA_OBJECTID_CAMERADEVICE c - 1) \<and>
          unat i = unat (XA_OBJECTID_CAMERADEVICE c) + 1 + (unat oid - unat (SL_OBJECTID_ENGINE c)))"
proof (cases "XA_OBJECTID_ENGINE c \<le> oid \<and> oid \<le> XA_OBJECTID_CAMERADEVICE c")
  case True
  with n show ?thesis by (simp add: normalize_objectID_def)
next
  case notA: False
  show ?thesis
  proof (cases "SL_OBJECTID_ENGINE c \<le> oid \<and> oid \<le> SL_OBJECTID_METADATAEXTRACTOR c")
    case True
    with notA n have "i = oid - (SL_OBJECTID_ENGINE c - XA_OBJECTID_CAMERADEVICE c - 1)"
      by (auto simp: normalize_objectID_def split: if_splits)
    moreover from wf True
    have "unat (oid - (SL_OBJECTID_ENGINE c - XA_OBJECTID_CAMERADEVICE c - 1)) =
        unat (XA_OBJECTID_CAMERADEVICE c) + 1 + (unat oid - unat (SL_OBJECTID_ENGINE c))"
      by (intro unat_B) (simp_all add: objectIDs_wf_def)
    ultimately show ?thesis using True by simp
  next
    case False
    with notA n show ?thesis by (auto simp: normalize_objectID_def split: if_splits)
  qed
qed

lemma normalize_inj:
  assumes wf: "objectIDs_wf c"
    and n: "normalize_objectID c oid = ([], Inr i)" and n': "normalize_objectID c oid' = ([], Inr i)"
  shows "oid = oid'"
proof -
  note c1 = normalize_Inr_cases[OF wf n] and c2 = normalize_Inr_cases[OF wf n']
  {
    fix a b :: u32
    assume A: "a \<le> XA_OBJECTID_CAMERADEVICE c" "i = a"
      and B: "unat i = unat (XA_OBJECTID_CAMERADEVICE c) + 1 + (unat b - unat (SL_OBJECTID_ENGINE c))"
    from A have "unat i \<le> unat (XA_OBJECTID_CAMERADEVICE c)" by (simp add: word_le_nat_alt)
    with B have False by simp
  }
  note clash = this
  from c1 c2 show ?thesis
  proof (elim disjE conjE)
    assume "i = oid" "i = oid'"
    then show ?thesis by simp
  next
    assume "i = oid - (SL_OBJECTID_ENGINE c - XA_OBJECTID_CAMERADEVICE c - 1)"
      "i = oid' - (SL_OBJECTID_ENGINE c - XA_OBJECTID_CAMERADEVICE c - 1)"
    then show ?thesis by simp
  next
    assume "oid \<le> XA_OBJECTID_CAMERADEVICE c" "i = oid"
      "unat i = unat (XA_OBJECTID_CAMERADEVICE c) + 1 + (unat oid' - unat (SL_OBJECTID_ENGINE c))"
    from clash[OF this] show ?thesis ..
  next
    assume "oid' \<le> XA_OBJECTID_CAMERADEVICE c" "i = oid'"
      "unat i = unat (XA_OBJECTID_CAMERADEVICE c) + 1 + (unat oid - unat (SL_OBJECTID_ENGINE c))"
    from clash[OF this] show ?thesis ..
  qed
qed

lemma normalize_image:
  assumes wf: "objectIDs_wf c"
  shows "(\<exists>oid. normalize_objectID c oid = ([], Inr i)) \<longleftrightarrow>
         XA_OBJECTID_ENGINE c \<le> i \<and>
         unat i \<le> unat (XA_OBJECTID_CAMERADEVICE c) + 1 +
           (unat (SL_OBJECTID_METADATAEXTRACTOR c) - unat (SL_OBJECTID_ENGINE c))"
proof
  assume "\<exists>oid. normalize_objectID c oid = ([], Inr i)"
  then obtain oid where n: "normalize_objectID c oid = ([], Inr i)" by blast
  from wf have w: "unat (XA_OBJECTID_ENGINE c) \<le> unat (XA_OBJECTID_CAMERADEVICE c)"
    "unat (XA_OBJECTID_CAMERADEVICE c) < unat (SL_OBJECTID_ENGINE c)"
    "unat (SL_OBJECTID_ENGINE c) \<le> unat (SL_OBJECTID_METADATAEXTRACTOR c)"
    by (simp_all add: objectIDs_wf_def word_le_nat_alt word_less_nat_alt)
  from normalize_Inr_cases[OF wf n]
  show "XA_OBJECTID_ENGINE c \<le> i \<and>
         unat i \<le> unat (XA_OBJECTID_CAMERADEVICE c) + 1 +
           (unat (SL_OBJECTID_METADATAEXTRACTOR c) - unat (SL_OBJECTID_ENGINE c))"
  proof (elim disjE conjE)
    assume "XA_OBJECTID_ENGINE c \<le> oid" "oid \<le> XA_OBJECTID_CAMERADEVICE c" "i = oid"
    then show ?thesis by (simp add: word_le_nat_alt)
  next
    assume b: "SL_OBJECTID_ENGINE c \<le> oid" "oid \<le> SL_OBJECTID_METADATAEXTRACTOR c"
      "unat i = unat (XA_OBJECTID_CAMERADEVICE c) + 1 + (unat oid - unat (SL_OBJECTID_ENGINE c))"
    then have "unat (SL_OBJECTID_ENGINE c) \<le> unat oid"
      "unat oid \<le> unat (SL_OBJECTID_METADATAEXTRACTOR c)"
      by (simp_all add: word_le_nat_alt)
    with b(3) w have "unat (XA_OBJECTID_ENGINE c) \<le> unat i"
      and "unat i \<le> unat (XA_OBJECTID_CAMERADEVICE c) + 1 +
           (unat (SL_OBJECTID_METADATAEXTRACTOR c) - unat (SL_OBJECTID_ENGINE c))"
      by arith+
    then show ?thesis by (simp add: word_le_nat_alt)
  qed
next
  assume r: "XA_OBJECTID_ENGINE c \<le> i \<and>
         unat i \<le> unat (XA_OBJECTID_CAMERADEVICE c) + 1 +
           (unat (SL_OBJECTID_METADATAEXTRACTOR c) - unat (SL_OBJECTID_ENGINE c))"
  from wf have w: "unat (XA_OBJECTID_ENGINE c) \<le> unat (XA_OBJECTID_CAMERADEVICE c)"
    "unat (XA_OBJECTID_CAMERADEVICE c) < unat (SL_OBJECTID_ENGINE c)"
    "unat (SL_OBJECTID_ENGINE c) \<le> unat (SL_OBJECTID_METADATAEXTRACTOR c)"
    by (simp_all add: objectIDs_wf_def word_le_nat_alt word_less_nat_alt)
  show "\<exists>oid. normalize_objectID c oid = ([], Inr i)"
  proof (cases "i \<le> XA_OBJECTID_CAMERADEVICE c")
    case True
    with r have "normalize_objectID c i = ([], Inr i)" by (simp add: normalize_A)
    then show ?thesis ..
  next
    case False
    then have lo: "unat (XA_OBJECTID_CAMERADEVICE c) < unat i"
      by (simp add: word_le_nat_alt)
    let ?off = "SL_OBJECTID_ENGINE c - XA_OBJECTID_CAMERADEVICE c - 1"
    from wf have "XA_OBJECTID_CAMERADEVICE c \<le> SL_OBJECTID_ENGINE c"
      by (auto simp: objectIDs_wf_def)
    then have d: "unat (SL_OBJECTID_ENGINE c - XA_OBJECTID_CAMERADEVICE c) =
        unat (SL_OBJECTID_ENGINE c) - unat (XA_OBJECTID_CAMERADEVICE c)"
      by (rule unat_sub)
    have "1 \<le> SL_OBJECTID_ENGINE c - XA_OBJECTID_CAMERADEVICE c"
      using w d by (simp add: word_le_nat_alt)
    then have off: "unat ?off = unat (SL_OBJECTID_ENGINE c) - unat (XA_OBJECTID_CAMERADEVICE c) - 1"
      using d by (simp add: unat_sub)
    have bound: "unat (SL_OBJECTID_METADATAEXTRACTOR c) < 2 ^ 32"
      using unsigned_less[of "SL_OBJECTID_METADATAEXTRACTOR c"] by simp
    from r have r2: "unat i \<le> unat (XA_OBJECTID_CAMERADEVICE c) + 1 +
           (unat (SL_OBJECTID_METADATAEXTRACTOR c) - unat (SL_OBJECTID_ENGINE c))"
      by simp
    from r2 w lo off have sum: "unat i + unat ?off \<le> unat (SL_OBJECTID_METADATAEXTRACTOR c)"
      by arith
    with bound have "unat i + unat ?off < 2 ^ LENGTH(32)" by simp
    then have u: "unat (i + ?off) = unat i + unat ?off"
      by (simp only: unat_add_lem[THEN iffD1])
    from off lo w have "unat (SL_OBJECTID_ENGINE c) \<le> unat i + unat ?off"
      by arith
    with u have ge: "SL_OBJECTID_ENGINE c \<le> i + ?off"
      by (simp only: word_le_nat_alt)
    from u sum have le: "i + ?off \<le> SL_OBJECTID_METADATAEXTRACTOR c"
      by (simp only: word_le_nat_alt)
    from normalize_B[OF wf ge le] have "normalize_objectID c (i + ?off) = ([], Inr i)"
      by simp
    then show ?thesis ..
  qed
qed

lemma demo_objectIDs_wf: "objectIDs_wf demo_config"
  by (simp add: objectIDs_wf_def demo_config_def)

subsection \<open>The dispatch scan\<close>

text \<open>
  C5. Whatever the mask, the loop makes one pass per set bit below
  \<^verbatim>\<open>ATTR_INDEX_MAX\<close>, lowest bit first: the bits scanned are the set bits of the mask in
  ascending order, up to the first one that fails the assertion of line 135; every
  event of the loop is one pass; the order is strictly ascending, so no bit is scanned
  twice and no table entry is invoked twice in a report. When every set bit is below
  \<^verbatim>\<open>ATTR_INDEX_MAX\<close> the loop returns, has scanned exactly the set bits, and has made as
  many passes as the mask has set bits.
\<close>

theorem handler_loop_scans_set_bits_ascending:
  "scan_bits (fst (handler_loop c oid M a obj)) =
     takeWhile (\<lambda>n. n < ATTR_INDEX_MAX c) (set_bits M)
   \<and> length (fst (handler_loop c oid M a obj)) =
       length (scan_bits (fst (handler_loop c oid M a obj)))
   \<and> sorted_wrt (<) (scan_bits (fst (handler_loop c oid M a obj)))
   \<and> ((\<forall>n. bit M n \<longrightarrow> n < ATTR_INDEX_MAX c) \<longrightarrow>
        (\<exists>p. snd (handler_loop c oid M a obj) = Inr p)
        \<and> scan_bits (fst (handler_loop c oid M a obj)) = set_bits M
        \<and> set (scan_bits (fst (handler_loop c oid M a obj))) = {n. bit M n}
        \<and> length (fst (handler_loop c oid M a obj)) = card {n. bit M n})"
proof -
  let ?tr = "fst (handler_loop c oid M a obj)"
  have s: "scan_bits ?tr = takeWhile (\<lambda>n. n < ATTR_INDEX_MAX c) (set_bits M)"
    by (rule loop_scan_bits)
  have l: "length ?tr = length (scan_bits ?tr)"
    by (simp add: loop_only_scans)
  have o: "sorted_wrt (<) (scan_bits ?tr)"
    unfolding s by (rule sorted_wrt_takeWhile) (rule sorted_set_bits)
  have r: "(\<exists>p. snd (handler_loop c oid M a obj) = Inr p)
        \<and> scan_bits ?tr = set_bits M \<and> set (scan_bits ?tr) = {n. bit M n}
        \<and> length ?tr = card {n. bit M n}"
    if all: "\<forall>n. bit M n \<longrightarrow> n < ATTR_INDEX_MAX c"
  proof -
    from all have b: "\<forall>n\<in>set (set_bits M). n < ATTR_INDEX_MAX c"
      by (simp add: set_set_bits)
    then have full: "scan_bits ?tr = set_bits M"
      unfolding s by simp
    from b have "\<exists>p. snd (handler_loop c oid M a obj) = Inr p"
      by (rule loop_returns_iff[THEN iffD2])
    with full l show ?thesis
      by (simp add: set_set_bits length_set_bits)
  qed
  from s l o r show ?thesis by blast
qed

theorem handler_loop_scans_set_bits_ascending_witness:
  "list_all (\<lambda>n. n < ATTR_INDEX_MAX demo_config) (set_bits 36)
   \<and> (\<exists>p. snd (handler_loop demo_config 1 36 36 demo_obj) = Inr p)
   \<and> scan_bits (fst (handler_loop demo_config 1 36 36 demo_obj)) = [2, 5]
   \<and> length (fst (handler_loop demo_config 1 36 36 demo_obj)) = card {n. bit (36 :: u32) n}"
proof -
  have "list_all (\<lambda>n. n < ATTR_INDEX_MAX demo_config) (set_bits 36)"
    by (simp add: demo_set_bits demo_config_def)
  with handler_loop_scans_set_bits_ascending [of demo_config 1 36 36 demo_obj]
    demo_bits_in_range
  show ?thesis
    unfolding demo_set_bits [symmetric] by blast
qed

subsection \<open>What a report does with the mask\<close>

text \<open>
  C1. In every report that returns (so the lock was held: the unlock of line 158
  succeeded), the bits of the mask \<open>M\<close> that the handlers' returned masks cleared from
  the working mask, \<open>M AND returned tr1\<close>, and the residual mask \<open>a\<close> that is OR'd into
  \<^verbatim>\<open>mAttributesMask\<close> make up \<open>M\<close> exactly and have no bit in common; the pending mask
  after the call is the one the handlers left, OR \<open>a\<close>.
\<close>

theorem report_partitions_mask:
  assumes "snd (object_unlock_exclusive_attributes_body c dbg self M obj) = Inr obj'"
  shows "\<exists>tr1 a obj1. dispatch c M obj = (tr1, Inr (a, obj1))
           \<and> (M AND returned tr1) OR a = M
           \<and> (M AND returned tr1) AND a = 0
           \<and> mAttributesMask obj' = mAttributesMask obj1 OR a"
proof -
  from body_run[OF assms] obtain tr1 a obj1 where
    d: "dispatch c M obj = (tr1, Inr (a, obj1))" and ok: "dbg_ok dbg self obj"
    and m: "mMutex obj1 = Some self" by blast
  have a: "a = M AND NOT (returned tr1)" by (rule dispatch_residual[OF d])
  from body_eq'[OF ok d m] assms
  have "snd (notify_engine c (if mAttributesMask obj1 = 0 then a else 0) (unlocked dbg a obj1)) = Inr obj'"
    by simp
  from notify_keeps[OF this] have "mAttributesMask obj' = mAttributesMask obj1 OR a"
    by simp
  with d a show ?thesis by (simp add: mask_split mask_disjoint)
qed

theorem report_partitions_mask_witness:
  "snd (object_unlock_exclusive_attributes_body demo_config (Some (Some ''b.c'', 20)) 7 36
          demo_obj) = Inr demo_reported
   \<and> (\<exists>tr1 a obj1. dispatch demo_config 36 demo_obj = (tr1, Inr (a, obj1))
           \<and> (36 AND returned tr1) OR a = 36
           \<and> (36 AND returned tr1) AND a = 0
           \<and> mAttributesMask demo_reported = mAttributesMask obj1 OR a)"
  using report_partitions_mask [of demo_config "Some (Some ''b.c'', 20)" 7 36 demo_obj
      demo_reported]
  by (simp add: demo_report)

text \<open>
  C9. The mask a handler returns is applied whole. One pass of the loop with a handler
  leaves the working mask as it was AND NOT the returned mask, and clears only the
  scanned bit from the loop-control mask. So, in every report that returns, the residual
  mask is the reported mask without any bit that any handler returned, while the scan
  still visits every set bit of the reported mask; a bit some handler returned is not in
  the residual mask and is left in \<^verbatim>\<open>mAttributesMask\<close> as the handlers left it; and when
  the handlers returned every reported bit, nothing is merged and the engine is not
  notified.
\<close>

theorem handler_result_not_masked:
  "(M \<noteq> 0 \<and> ctz M < ATTR_INDEX_MAX c \<and> handlerTable c oid (ctz M) = Some h \<longrightarrow>
      handler_loop c oid M a obj =
        emit (Scan (ctz M) (Some (fst (h obj))))
          (handler_loop c oid (M AND NOT (push_bit (ctz M) 1))
             (a AND NOT (fst (h obj))) (snd (h obj))))
   \<and> (snd (object_unlock_exclusive_attributes_body c dbg self M0 obj0) = Inr obj' \<longrightarrow>
        (\<exists>tr1 a1 obj1. dispatch c M0 obj0 = (tr1, Inr (a1, obj1))
           \<and> a1 = M0 AND NOT (returned tr1)
           \<and> scan_bits tr1 = set_bits M0
           \<and> (\<forall>n. bit (returned tr1) n \<longrightarrow>
                 \<not> bit a1 n
                 \<and> bit (mAttributesMask obj') n = bit (mAttributesMask obj1) n)
           \<and> (a1 = 0 \<longrightarrow>
                 mAttributesMask obj' = mAttributesMask obj1
                 \<and> mEngine obj' = mEngine obj1
                 \<and> engine_ors
                     (fst (object_unlock_exclusive_attributes_body c dbg self M0 obj0)) = [])))"
proof (intro conjI impI)
  assume "M \<noteq> 0 \<and> ctz M < ATTR_INDEX_MAX c \<and> handlerTable c oid (ctz M) = Some h"
  then show "handler_loop c oid M a obj =
        emit (Scan (ctz M) (Some (fst (h obj))))
          (handler_loop c oid (M AND NOT (push_bit (ctz M) 1))
             (a AND NOT (fst (h obj))) (snd (h obj)))"
    by (simp add: handler_loop_Some)
next
  assume run: "snd (object_unlock_exclusive_attributes_body c dbg self M0 obj0) = Inr obj'"
  from body_run[OF run] obtain tr1 a1 obj1 where
    d: "dispatch c M0 obj0 = (tr1, Inr (a1, obj1))" and ok: "dbg_ok dbg self obj0"
    and m: "mMutex obj1 = Some self" by blast
  have a: "a1 = M0 AND NOT (returned tr1)" by (rule dispatch_residual[OF d])
  have s: "scan_bits tr1 = set_bits M0" by (rule dispatch_scan_bits[OF d])
  note eq = body_eq'[OF ok d m]
  from eq run
  have n: "snd (notify_engine c (if mAttributesMask obj1 = 0 then a1 else 0) (unlocked dbg a1 obj1)) = Inr obj'"
    by simp
  from notify_keeps[OF n] have p: "mAttributesMask obj' = mAttributesMask obj1 OR a1"
    by simp
  have bits: "\<forall>n. bit (returned tr1) n \<longrightarrow>
                 \<not> bit a1 n \<and> bit (mAttributesMask obj') n = bit (mAttributesMask obj1) n"
    unfolding p a by (auto simp: bit_simps)
  have zero: "mAttributesMask obj' = mAttributesMask obj1 \<and> mEngine obj' = mEngine obj1
      \<and> engine_ors (fst (object_unlock_exclusive_attributes_body c dbg self M0 obj0)) = []"
    if z: "a1 = 0"
  proof -
    from z have "notify_engine c (if mAttributesMask obj1 = 0 then a1 else 0) (unlocked dbg a1 obj1)
        = ([], Inr (unlocked dbg a1 obj1))"
      by (simp add: notify_skip)
    with n have o: "obj' = unlocked dbg a1 obj1" by simp
    from eq z have "engine_ors (fst (object_unlock_exclusive_attributes_body c dbg self M0 obj0)) = []"
      by (simp add: notify_skip dispatch_no_engine_ors[OF d])
    with p z o show ?thesis by simp
  qed
  from d a s bits zero
  show "\<exists>tr1 a1 obj1. dispatch c M0 obj0 = (tr1, Inr (a1, obj1))
           \<and> a1 = M0 AND NOT (returned tr1)
           \<and> scan_bits tr1 = set_bits M0
           \<and> (\<forall>n. bit (returned tr1) n \<longrightarrow>
                 \<not> bit a1 n
                 \<and> bit (mAttributesMask obj') n = bit (mAttributesMask obj1) n)
           \<and> (a1 = 0 \<longrightarrow>
                 mAttributesMask obj' = mAttributesMask obj1
                 \<and> mEngine obj' = mEngine obj1
                 \<and> engine_ors
                     (fst (object_unlock_exclusive_attributes_body c dbg self M0 obj0)) = [])"
    by blast
qed

theorem handler_result_not_masked_witness:
  "(3 \<noteq> (0 :: u32) \<and> ctz 3 < ATTR_INDEX_MAX greedy_config
     \<and> handlerTable greedy_config 1 (ctz 3) = Some greedy_handler)
   \<and> handler_loop greedy_config 1 3 3 demo_obj =
        emit (Scan (ctz 3) (Some (fst (greedy_handler demo_obj))))
          (handler_loop greedy_config 1 (3 AND NOT (push_bit (ctz 3) 1))
             (3 AND NOT (fst (greedy_handler demo_obj))) (snd (greedy_handler demo_obj)))
   \<and> snd (object_unlock_exclusive_attributes_body greedy_config None 7 3 demo_obj) =
        Inr (demo_obj\<lparr>mMutex := None\<rparr>)
   \<and> dispatch greedy_config 3 demo_obj = ([Scan 0 (Some 3), Scan 1 None], Inr (0, demo_obj))
   \<and> (\<exists>tr1 a1 obj1. dispatch greedy_config 3 demo_obj = (tr1, Inr (a1, obj1))
           \<and> a1 = 3 AND NOT (returned tr1)
           \<and> scan_bits tr1 = set_bits 3
           \<and> (\<forall>n. bit (returned tr1) n \<longrightarrow>
                 \<not> bit a1 n
                 \<and> bit (mAttributesMask (demo_obj\<lparr>mMutex := None\<rparr>)) n =
                     bit (mAttributesMask obj1) n)
           \<and> (a1 = 0 \<longrightarrow>
                 mAttributesMask (demo_obj\<lparr>mMutex := None\<rparr>) = mAttributesMask obj1
                 \<and> mEngine (demo_obj\<lparr>mMutex := None\<rparr>) = mEngine obj1
                 \<and> engine_ors
                     (fst (object_unlock_exclusive_attributes_body greedy_config None 7 3
                        demo_obj)) = []))"
proof -
  have r: "snd (object_unlock_exclusive_attributes_body greedy_config None 7 3 demo_obj) =
        Inr (demo_obj\<lparr>mMutex := None\<rparr>)"
    by (simp add: greedy_report)
  from handler_result_not_masked [of 3 greedy_config 1 greedy_handler 3 demo_obj None 7 3
      demo_obj "demo_obj\<lparr>mMutex := None\<rparr>"] greedy_entry r greedy_dispatch
  show ?thesis by blast
qed

subsection \<open>Notifying the engine\<close>

text \<open>
  C4. Take a report whose entry assertions hold, whose dispatch returns the residual
  mask \<open>a\<close> and the object \<open>obj1\<close>, and whose caller holds the mutex. The object's mutex is
  released first (the event \<open>Mutex_unlock 0\<close>; the object then has no holder). If \<open>a\<close> is
  not zero, nothing was pending (so \<open>a\<close> is not suppressed) and the instance slot is not
  zero and within \<^verbatim>\<open>MAX_INSTANCE\<close>, the run ends with the engine's lock taken, the single
  bit \<open>1 << (mInstanceID - 1)\<close> OR'd into \<^verbatim>\<open>mChangedMask\<close>, and the engine's lock
  released. A slot beyond \<^verbatim>\<open>MAX_INSTANCE\<close> fails the assertion of line 166. If \<open>a\<close> is
  zero, or something was pending, or the slot is zero, the run ends with the unlock and
  the engine is as the handlers left it. The dispatch itself never touches the mask.
\<close>

theorem engine_notified_after_unlock:
  assumes "dbg_ok dbg self obj" and "dispatch c M obj = (tr1, Inr (a, obj1))"
    and "mMutex obj1 = Some self"
  shows
   "(a \<noteq> 0 \<and> mAttributesMask obj1 = 0 \<and> mInstanceID obj1 \<noteq> 0
       \<and> unat (mInstanceID obj1 - 1) < MAX_INSTANCE c \<longrightarrow>
       object_unlock_exclusive_attributes_body c dbg self M obj =
         (tr1 @ [Mutex_unlock 0, Engine_lock, Engine_or (unat (mInstanceID obj1 - 1)),
                 Engine_unlock],
          Inr ((unlocked dbg a obj1)
                 \<lparr>mEngine := (mEngine obj1)
                    \<lparr>mChangedMask :=
                       mChangedMask (mEngine obj1)
                         OR push_bit (unat (mInstanceID obj1 - 1)) 1\<rparr>\<rparr>)))
    \<and> (a \<noteq> 0 \<and> mAttributesMask obj1 = 0 \<and> mInstanceID obj1 \<noteq> 0
       \<and> \<not> unat (mInstanceID obj1 - 1) < MAX_INSTANCE c \<longrightarrow>
       object_unlock_exclusive_attributes_body c dbg self M obj =
         (tr1 @ [Mutex_unlock 0], Inl (Assert_failed 166)))
    \<and> (a = 0 \<or> mAttributesMask obj1 \<noteq> 0 \<or> mInstanceID obj1 = 0 \<longrightarrow>
       object_unlock_exclusive_attributes_body c dbg self M obj =
         (tr1 @ [Mutex_unlock 0], Inr (unlocked dbg a obj1)))
    \<and> mEngine (unlocked dbg a obj1) = mEngine obj1
    \<and> mMutex (unlocked dbg a obj1) = None
    \<and> engine_ors tr1 = []"
proof -
  note eq = body_eq'[OF assms]
  have fire: "object_unlock_exclusive_attributes_body c dbg self M obj =
         (tr1 @ [Mutex_unlock 0, Engine_lock, Engine_or (unat (mInstanceID obj1 - 1)),
                 Engine_unlock],
          Inr ((unlocked dbg a obj1)
                 \<lparr>mEngine := (mEngine obj1)
                    \<lparr>mChangedMask :=
                       mChangedMask (mEngine obj1)
                         OR push_bit (unat (mInstanceID obj1 - 1)) 1\<rparr>\<rparr>))"
    if "a \<noteq> 0 \<and> mAttributesMask obj1 = 0 \<and> mInstanceID obj1 \<noteq> 0
       \<and> unat (mInstanceID obj1 - 1) < MAX_INSTANCE c"
  proof -
    from that have "notify_engine c a (unlocked dbg a obj1) =
       ([Engine_lock, Engine_or (unat (mInstanceID obj1 - 1)), Engine_unlock],
        Inr ((unlocked dbg a obj1)
                 \<lparr>mEngine := (mEngine obj1)
                    \<lparr>mChangedMask :=
                       mChangedMask (mEngine obj1)
                         OR push_bit (unat (mInstanceID obj1 - 1)) 1\<rparr>\<rparr>))"
      using notify_fire[of a "unlocked dbg a obj1" c] by simp
    with eq that show ?thesis by simp
  qed
  have abort: "object_unlock_exclusive_attributes_body c dbg self M obj =
         (tr1 @ [Mutex_unlock 0], Inl (Assert_failed 166))"
    if "a \<noteq> 0 \<and> mAttributesMask obj1 = 0 \<and> mInstanceID obj1 \<noteq> 0
       \<and> \<not> unat (mInstanceID obj1 - 1) < MAX_INSTANCE c"
  proof -
    from that have "notify_engine c a (unlocked dbg a obj1) = ([], Inl (Assert_failed 166))"
      using notify_assert[of a "unlocked dbg a obj1" c] by simp
    with eq that show ?thesis by simp
  qed
  have skip: "object_unlock_exclusive_attributes_body c dbg self M obj =
         (tr1 @ [Mutex_unlock 0], Inr (unlocked dbg a obj1))"
    if "a = 0 \<or> mAttributesMask obj1 \<noteq> 0 \<or> mInstanceID obj1 = 0"
  proof -
    from that have "notify_engine c (if mAttributesMask obj1 = 0 then a else 0) (unlocked dbg a obj1)
        = ([], Inr (unlocked dbg a obj1))"
      by (intro notify_skip) auto
    with eq show ?thesis by simp
  qed
  from fire abort skip dispatch_no_engine_ors[OF assms(2)] show ?thesis
    by (simp del: push_bit_of_1)
qed

theorem engine_notified_after_unlock_witness:
  "(dbg_ok (Some (Some ''b.c'', 20)) 7 demo_obj
     \<and> dispatch demo_config 36 demo_obj = ([Scan 2 (Some 4), Scan 5 None], Inr (32, demo_obj))
     \<and> mMutex demo_obj = Some 7)
   \<and> object_unlock_exclusive_attributes_body demo_config (Some (Some ''b.c'', 20)) 7 36 demo_obj =
       ([Scan 2 (Some 4), Scan 5 None, Mutex_unlock 0, Engine_lock, Engine_or 2, Engine_unlock],
        Inr ((unlocked (Some (Some ''b.c'', 20)) 32 demo_obj)
               \<lparr>mEngine := \<lparr>mChangedMask = 0 OR push_bit 2 1\<rparr>\<rparr>))
   \<and> (dbg_ok (Some (Some ''d.c'', 40)) 7 demo_relocked
     \<and> dispatch demo_config 2 demo_relocked = ([Scan 1 None], Inr (2, demo_relocked))
     \<and> mMutex demo_relocked = Some 7)
   \<and> object_unlock_exclusive_attributes_body demo_config (Some (Some ''d.c'', 40)) 7 2
        demo_relocked =
       ([Scan 1 None, Mutex_unlock 0], Inr (unlocked (Some (Some ''d.c'', 40)) 2 demo_relocked))"
proof -
  have h1: "dbg_ok (Some (Some ''b.c'', 20)) 7 demo_obj" "mMutex demo_obj = Some 7"
    by (simp_all add: dbg_ok_def demo_obj_def)
  have h2: "dbg_ok (Some (Some ''d.c'', 40)) 7 demo_relocked" "mMutex demo_relocked = Some 7"
    by (simp_all add: dbg_ok_def demo_relocked_def)
  have v1: "32 \<noteq> (0::u32) \<and> mAttributesMask demo_obj = 0 \<and> mInstanceID demo_obj \<noteq> 0
       \<and> unat (mInstanceID demo_obj - 1) < MAX_INSTANCE demo_config"
    "unat (mInstanceID demo_obj - 1) = 2" "mEngine demo_obj = \<lparr>mChangedMask = 0\<rparr>"
    by (simp_all add: demo_obj_def demo_config_def)
  have v2: "mAttributesMask demo_relocked \<noteq> 0"
    by (simp add: demo_relocked_def)
  from engine_notified_after_unlock [OF h1(1) demo_dispatch h1(2)] v1
       engine_notified_after_unlock [OF h2(1) demo_second_dispatch h2(2)] v2
       h1 h2 demo_dispatch demo_second_dispatch
  show ?thesis by (simp del: push_bit_of_1)
qed

text \<open>
  C2. The engine is notified only when the pending mask goes from zero to nonzero.
  First, a report that merges a nonzero residual mask \<open>a\<close> while the pending mask is
  already nonzero notifies nothing: no bit is OR'd into the engine's mask, the engine is
  as the handlers left it, and the pending mask grows by \<open>a\<close>. Second, take two
  consecutive reports (the second starts with the pending mask of the object the first
  left), with nonzero residual masks \<open>aA\<close> and \<open>aB\<close>, on an object with nothing pending
  and handlers that leave the mask alone: over both runs the engine gets one
  notification, for the object's instance (none if the object has no instance slot),
  the second run gives none, and the pending mask ends as \<open>aA OR aB\<close>.
\<close>

theorem notification_coalesced:
  "(object_unlock_exclusive_attributes_body c dbg self M obj = (tr, Inr obj')
      \<and> dispatch c M obj = (tr1, Inr (a, obj1)) \<and> a \<noteq> 0 \<and> mAttributesMask obj1 \<noteq> 0 \<longrightarrow>
      engine_ors tr = [] \<and> mEngine obj' = mEngine obj1
      \<and> mAttributesMask obj' = mAttributesMask obj1 OR a)
   \<and> (handlers_keep c \<and> mAttributesMask objA = 0
      \<and> object_unlock_exclusive_attributes_body c dbgA selfA MA objA = (trA, Inr objA')
      \<and> dispatch c MA objA = (sA, Inr (aA, oA)) \<and> aA \<noteq> 0
      \<and> mAttributesMask objB = mAttributesMask objA' \<and> mInstanceID objB = mInstanceID objA'
      \<and> object_unlock_exclusive_attributes_body c dbgB selfB MB objB = (trB, Inr objB')
      \<and> dispatch c MB objB = (sB, Inr (aB, oB)) \<and> aB \<noteq> 0 \<longrightarrow>
      engine_ors (trA @ trB) =
        (if mInstanceID objA = 0 then [] else [unat (mInstanceID objA - 1)])
      \<and> engine_ors trB = []
      \<and> mAttributesMask objB' = aA OR aB)"
proof -
  have single: "engine_ors tr = [] \<and> mEngine obj' = mEngine obj1
      \<and> mAttributesMask obj' = mAttributesMask obj1 OR a"
    if run: "object_unlock_exclusive_attributes_body c dbg self M obj = (tr, Inr obj')"
      and d: "dispatch c M obj = (tr1, Inr (a, obj1))" and p: "mAttributesMask obj1 \<noteq> 0"
    for c dbg self M obj tr obj' tr1 a obj1
  proof -
    from run have "snd (object_unlock_exclusive_attributes_body c dbg self M obj) = Inr obj'"
      by simp
    from body_run[OF this] d have ok: "dbg_ok dbg self obj" and m: "mMutex obj1 = Some self"
      by simp_all
    from body_eq'[OF ok d m] p run have "obj' = unlocked dbg a obj1"
      by (simp add: notify_skip)
    then have e: "mEngine obj' = mEngine obj1" by simp
    from body_result(1,2)[OF run d] p e show ?thesis by simp
  qed
  have twice: "engine_ors (trA @ trB) =
        (if mInstanceID objA = 0 then [] else [unat (mInstanceID objA - 1)])
      \<and> engine_ors trB = []
      \<and> mAttributesMask objB' = aA OR aB"
    if keep: "handlers_keep c" and p0: "mAttributesMask objA = 0"
      and runA: "object_unlock_exclusive_attributes_body c dbgA selfA MA objA = (trA, Inr objA')"
      and dA: "dispatch c MA objA = (sA, Inr (aA, oA))" and aA: "aA \<noteq> 0"
      and same: "mAttributesMask objB = mAttributesMask objA'"
      and runB: "object_unlock_exclusive_attributes_body c dbgB selfB MB objB = (trB, Inr objB')"
      and dB: "dispatch c MB objB = (sB, Inr (aB, oB))"
  proof -
    note kA = dispatch_keeps[OF keep dA] and kB = dispatch_keeps[OF keep dB]
    from body_result(1,2)[OF runA dA] kA p0 aA
    have tA: "engine_ors trA = (if mInstanceID objA = 0 then [] else [unat (mInstanceID objA - 1)])"
      and pA: "mAttributesMask objA' = aA"
      by simp_all
    from kB same pA aA have pB: "mAttributesMask oB = aA" "mAttributesMask oB \<noteq> 0"
      by simp_all
    from single[OF runB dB pB(2)] pB(1) tA show ?thesis by simp
  qed
  from single twice show ?thesis by blast
qed

theorem notification_coalesced_witness:
  "(object_unlock_exclusive_attributes_body demo_config (Some (Some ''b.c'', 20)) 7 36 demo_obj =
      ([Scan 2 (Some 4), Scan 5 None, Mutex_unlock 0, Engine_lock, Engine_or 2, Engine_unlock],
       Inr demo_reported)
    \<and> dispatch demo_config 36 demo_obj = ([Scan 2 (Some 4), Scan 5 None], Inr (32, demo_obj))
    \<and> object_unlock_exclusive_attributes_body demo_config (Some (Some ''d.c'', 40)) 7 2
        demo_relocked = ([Scan 1 None, Mutex_unlock 0], Inr demo_reported_twice)
    \<and> dispatch demo_config 2 demo_relocked = ([Scan 1 None], Inr (2, demo_relocked)))
   \<and> engine_ors ([Scan 2 (Some 4), Scan 5 None, Mutex_unlock 0, Engine_lock, Engine_or 2,
        Engine_unlock] @ [Scan 1 None, Mutex_unlock 0]) = [unat (mInstanceID demo_obj - 1)]
   \<and> engine_ors [Scan 1 None, Mutex_unlock 0] = []
   \<and> mEngine demo_reported_twice = mEngine demo_relocked
   \<and> mAttributesMask demo_reported_twice = 32 OR 2"
proof -
  have f: "handlers_keep demo_config \<and> mAttributesMask demo_obj = 0 \<and> (32 :: u32) \<noteq> 0
      \<and> mAttributesMask demo_relocked = mAttributesMask demo_reported
      \<and> mInstanceID demo_relocked = mInstanceID demo_reported \<and> (2 :: u32) \<noteq> 0
      \<and> mAttributesMask demo_relocked \<noteq> 0 \<and> mInstanceID demo_obj \<noteq> 0"
    by (simp add: demo_handlers_keep demo_obj_def demo_relocked_def demo_reported_def)
  from notification_coalesced [of demo_config "Some (Some ''d.c'', 40)" 7 2 demo_relocked
      "[Scan 1 None, Mutex_unlock 0]" demo_reported_twice "[Scan 1 None]" 2 demo_relocked
      demo_obj "Some (Some ''b.c'', 20)" 7 36
      "[Scan 2 (Some 4), Scan 5 None, Mutex_unlock 0, Engine_lock, Engine_or 2, Engine_unlock]"
      demo_reported "[Scan 2 (Some 4), Scan 5 None]" 32 demo_obj demo_relocked
      "Some (Some ''d.c'', 40)" 7 2 "[Scan 1 None, Mutex_unlock 0]" demo_reported_twice
      "[Scan 1 None]" 2 demo_relocked]
    f demo_report demo_dispatch demo_second_report demo_second_dispatch
  show ?thesis by metis
qed

subsection \<open>The two masks only grow\<close>



subsection \<open>Locking\<close>




subsection \<open>Waiting\<close>

text \<open>
  C8. In a debug-build wait, the object the other threads find during the suspension
  has the nil owner (and the wait's call-site as provenance). When the caller is the
  recorded owner, with provenance set, and \<^verbatim>\<open>pthread_cond_wait\<close> returns 0, the call
  returns the object as the other threads left it, with the caller as owner and holder
  and the wait's call-site as provenance; whenever the call returns, that is so. The
  call depends on the other threads only through what they do to an object with the
  nil owner, a free mutex and that provenance.
\<close>

theorem cond_wait_clears_and_restores_owner:
  "mOwner (suspended file line obj) = 0 \<and> mMutex (suspended file line obj) = None
   \<and> mFile (suspended file line obj) = file \<and> mLine (suspended file line obj) = line
   \<and> (self = mOwner obj \<and> mFile obj \<noteq> None \<and> mLine obj \<noteq> 0
        \<and> fst (others (suspended file line obj)) = 0 \<longrightarrow>
        object_cond_wait_debug others self file line obj =
          ([Cond_wait 0],
           Inr ((snd (others (suspended file line obj)))
                  \<lparr>mMutex := Some self, mOwner := self, mFile := file, mLine := line\<rparr>)))
   \<and> (snd (object_cond_wait_debug others self file line obj) = Inr obj' \<longrightarrow>
        mOwner obj' = self \<and> mFile obj' = file \<and> mLine obj' = line \<and> mMutex obj' = Some self)
   \<and> ((\<forall>x. mOwner x = 0 \<and> mMutex x = None \<and> mFile x = file \<and> mLine x = line \<longrightarrow>
           others x = others' x) \<longrightarrow>
        object_cond_wait_debug others self file line obj =
          object_cond_wait_debug others' self file line obj)"
proof -
  have s: "mOwner (suspended file line obj) = 0 \<and> mMutex (suspended file line obj) = None
   \<and> mFile (suspended file line obj) = file \<and> mLine (suspended file line obj) = line"
    by (simp add: suspended_def)
  have r: "object_cond_wait_debug others self file line obj =
          ([Cond_wait 0],
           Inr ((snd (others (suspended file line obj)))
                  \<lparr>mMutex := Some self, mOwner := self, mFile := file, mLine := line\<rparr>))"
    if "self = mOwner obj \<and> mFile obj \<noteq> None \<and> mLine obj \<noteq> 0
        \<and> fst (others (suspended file line obj)) = 0"
    using that by (simp add: cond_wait_debug_eq)
  have b: "mOwner obj' = self \<and> mFile obj' = file \<and> mLine obj' = line \<and> mMutex obj' = Some self"
    if "snd (object_cond_wait_debug others self file line obj) = Inr obj'"
    using cond_wait_debug_Inr[OF that] by simp
  have e: "object_cond_wait_debug others self file line obj =
          object_cond_wait_debug others' self file line obj"
    if "\<forall>x. mOwner x = 0 \<and> mMutex x = None \<and> mFile x = file \<and> mLine x = line \<longrightarrow>
           others x = others' x"
  proof -
    from that s have "others (suspended file line obj) = others' (suspended file line obj)"
      by blast
    then show ?thesis by (simp add: cond_wait_debug_eq)
  qed
  from s r b e show ?thesis by blast
qed

theorem cond_wait_clears_and_restores_owner_witness:
  "(7 = mOwner demo_obj \<and> mFile demo_obj \<noteq> None \<and> mLine demo_obj \<noteq> 0
      \<and> fst (demo_others (suspended (Some ''w.c'') 60 demo_obj)) = 0)
   \<and> mOwner (suspended (Some ''w.c'') 60 demo_obj) = 0
   \<and> object_cond_wait_debug demo_others 7 (Some ''w.c'') 60 demo_obj =
       ([Cond_wait 0],
        Inr ((snd (demo_others (suspended (Some ''w.c'') 60 demo_obj)))
               \<lparr>mMutex := Some 7, mOwner := 7, mFile := Some ''w.c'', mLine := 60\<rparr>))
   \<and> mOwner (demo_obj\<lparr>mMutex := Some 7, mOwner := 7, mFile := Some ''w.c'', mLine := 60,
               mAttributesMask := 64\<rparr>) = 7
   \<and> mFile (demo_obj\<lparr>mMutex := Some 7, mOwner := 7, mFile := Some ''w.c'', mLine := 60,
               mAttributesMask := 64\<rparr>) = Some ''w.c''
   \<and> mLine (demo_obj\<lparr>mMutex := Some 7, mOwner := 7, mFile := Some ''w.c'', mLine := 60,
               mAttributesMask := 64\<rparr>) = 60
   \<and> object_cond_wait_debug demo_others 7 (Some ''w.c'') 60 demo_obj =
       object_cond_wait_debug (\<lambda>x. if mOwner x = 0 then demo_others x else (1, x)) 7
         (Some ''w.c'') 60 demo_obj"
proof -
  have h: "7 = mOwner demo_obj \<and> mFile demo_obj \<noteq> None \<and> mLine demo_obj \<noteq> 0
      \<and> fst (demo_others (suspended (Some ''w.c'') 60 demo_obj)) = 0"
    by (simp add: demo_obj_def demo_others_def)
  have a: "\<forall>x. mOwner x = 0 \<and> mMutex x = None \<and> mFile x = Some ''w.c'' \<and> mLine x = 60 \<longrightarrow>
      demo_others x = (\<lambda>x. if mOwner x = 0 then demo_others x else (1, x)) x"
    by simp
  note t = cond_wait_clears_and_restores_owner [of "Some ''w.c''" 60 demo_obj 7 demo_others
      "demo_obj\<lparr>mMutex := Some 7, mOwner := 7, mFile := Some ''w.c'', mLine := 60,
            mAttributesMask := 64\<rparr>" "\<lambda>x. if mOwner x = 0 then demo_others x else (1, x)"]
  from t h have 1: "object_cond_wait_debug demo_others 7 (Some ''w.c'') 60 demo_obj =
       ([Cond_wait 0],
        Inr ((snd (demo_others (suspended (Some ''w.c'') 60 demo_obj)))
               \<lparr>mMutex := Some 7, mOwner := 7, mFile := Some ''w.c'', mLine := 60\<rparr>))"
    by blast
  from t have 2: "mOwner (suspended (Some ''w.c'') 60 demo_obj) = 0" by blast
  have "snd (object_cond_wait_debug demo_others 7 (Some ''w.c'') 60 demo_obj) =
      Inr (demo_obj\<lparr>mMutex := Some 7, mOwner := 7, mFile := Some ''w.c'', mLine := 60,
            mAttributesMask := 64\<rparr>)"
    by (simp add: demo_wait_run)
  with t have 3: "mOwner (demo_obj\<lparr>mMutex := Some 7, mOwner := 7, mFile := Some ''w.c'', mLine := 60,
               mAttributesMask := 64\<rparr>) = 7
   \<and> mFile (demo_obj\<lparr>mMutex := Some 7, mOwner := 7, mFile := Some ''w.c'', mLine := 60,
               mAttributesMask := 64\<rparr>) = Some ''w.c''
   \<and> mLine (demo_obj\<lparr>mMutex := Some 7, mOwner := 7, mFile := Some ''w.c'', mLine := 60,
               mAttributesMask := 64\<rparr>) = 60"
    by blast
  from t a have 4: "object_cond_wait_debug demo_others 7 (Some ''w.c'') 60 demo_obj =
       object_cond_wait_debug (\<lambda>x. if mOwner x = 0 then demo_others x else (1, x)) 7
         (Some ''w.c'') 60 demo_obj"
    by blast
  from h 1 2 3 4 show ?thesis by blast
qed

subsection \<open>Reporting nothing\<close>

text \<open>
  C10. On an object whose category lies in one of the two ranges, the report of the
  empty mask does what the plain unlock does, in the debug build and in the other one:
  the same events and the same object left behind (or a failed assertion in both,
  at its own line in each function). No handler is invoked, the engine is not
  notified, and when the call returns, the object is the one it was called on with the
  owner cleared and the provenance set as the build does, the mutex free, and the
  pending mask and the engine untouched.
\<close>

theorem empty_report_is_unlock:
  "(\<exists>i. normalize_objectID c (mObjectID obj) = ([], Inr i)) \<longrightarrow>
     outcome (object_unlock_exclusive_attributes_debug c self 0 file line obj) =
       outcome (object_unlock_exclusive_debug self file line obj)
     \<and> outcome (object_unlock_exclusive_attributes c self 0 obj) =
       outcome (object_unlock_exclusive self obj)
     \<and> dispatch c 0 obj = ([], Inr (0, obj))
     \<and> scan_bits (fst (object_unlock_exclusive_attributes_body c dbg self 0 obj)) = []
     \<and> engine_ors (fst (object_unlock_exclusive_attributes_body c dbg self 0 obj)) = []
     \<and> (snd (object_unlock_exclusive_attributes_body c dbg self 0 obj) = Inr obj' \<longrightarrow>
          obj' = (clear_owner dbg obj)\<lparr>mMutex := None\<rparr>
          \<and> mAttributesMask obj' = mAttributesMask obj \<and> mEngine obj' = mEngine obj)"
proof
  assume "\<exists>i. normalize_objectID c (mObjectID obj) = ([], Inr i)"
  then obtain i where n: "normalize_objectID c (mObjectID obj) = ([], Inr i)" by blast
  note b = body_0[OF n]
  have 1: "outcome (object_unlock_exclusive_attributes_debug c self 0 file line obj) =
       outcome (object_unlock_exclusive_debug self file line obj)"
  proof (cases "self = mOwner obj \<and> mFile obj \<noteq> None \<and> mLine obj \<noteq> 0")
    case True
    then have "object_unlock_exclusive_attributes_debug c self 0 file line obj =
        unlock_mutex self 159 (obj\<lparr>mOwner := 0, mFile := file, mLine := line\<rparr>)"
      and "object_unlock_exclusive_debug self file line obj =
        unlock_mutex self 85 (obj\<lparr>mOwner := 0, mFile := file, mLine := line\<rparr>)"
      unfolding object_unlock_exclusive_attributes_debug_def object_unlock_exclusive_debug_def b
        assert_owner_eq
      by (simp_all add: dbg_ok_def clear_owner_def)
    then show ?thesis by (simp only: outcome_unlock_mutex[of self 159 _ 85])
  next
    case False
    then have "outcome (object_unlock_exclusive_attributes_debug c self 0 file line obj) = ([], None)"
      and "outcome (object_unlock_exclusive_debug self file line obj) = ([], None)"
      unfolding object_unlock_exclusive_attributes_debug_def object_unlock_exclusive_debug_def b
        assert_owner_eq
      by (auto simp: dbg_ok_def outcome_def)
    then show ?thesis by simp
  qed
  have "object_unlock_exclusive_attributes c self 0 obj = unlock_mutex self 159 obj"
    unfolding object_unlock_exclusive_attributes_def b
    by (simp add: dbg_ok_def clear_owner_def)
  then have 2: "outcome (object_unlock_exclusive_attributes c self 0 obj) =
       outcome (object_unlock_exclusive self obj)"
    unfolding object_unlock_exclusive_def
    by (simp only: outcome_unlock_mutex[of self 159 _ 92])
  have tr: "scan_bits (fst (object_unlock_exclusive_attributes_body c dbg self 0 obj)) = []
     \<and> engine_ors (fst (object_unlock_exclusive_attributes_body c dbg self 0 obj)) = []"
    unfolding b
    by (cases "mMutex (clear_owner dbg obj) = Some self")
       (simp_all add: unlock_mutex_held unlock_mutex_not_held)
  have 3: "obj' = (clear_owner dbg obj)\<lparr>mMutex := None\<rparr>
          \<and> mAttributesMask obj' = mAttributesMask obj \<and> mEngine obj' = mEngine obj"
    if r: "snd (object_unlock_exclusive_attributes_body c dbg self 0 obj) = Inr obj'"
  proof -
    from r have "snd (unlock_mutex self 159 (clear_owner dbg obj)) = Inr obj'"
      unfolding b by (simp split: if_splits)
    from unlock_mutex_Inr[OF this] show ?thesis by simp
  qed
  from 1 2 tr 3 dispatch_0[OF n]
  show "outcome (object_unlock_exclusive_attributes_debug c self 0 file line obj) =
       outcome (object_unlock_exclusive_debug self file line obj)
     \<and> outcome (object_unlock_exclusive_attributes c self 0 obj) =
       outcome (object_unlock_exclusive self obj)
     \<and> dispatch c 0 obj = ([], Inr (0, obj))
     \<and> scan_bits (fst (object_unlock_exclusive_attributes_body c dbg self 0 obj)) = []
     \<and> engine_ors (fst (object_unlock_exclusive_attributes_body c dbg self 0 obj)) = []
     \<and> (snd (object_unlock_exclusive_attributes_body c dbg self 0 obj) = Inr obj' \<longrightarrow>
          obj' = (clear_owner dbg obj)\<lparr>mMutex := None\<rparr>
          \<and> mAttributesMask obj' = mAttributesMask obj \<and> mEngine obj' = mEngine obj)"
    by blast
qed

theorem empty_report_is_unlock_witness:
  "normalize_objectID demo_config (mObjectID demo_obj) = ([], Inr 1)
   \<and> outcome (object_unlock_exclusive_attributes_debug demo_config 7 0 (Some ''e.c'') 50 demo_obj) =
       ([Mutex_unlock 0],
        Some (demo_obj\<lparr>mOwner := 0, mFile := Some ''e.c'', mLine := 50, mMutex := None\<rparr>))
   \<and> outcome (object_unlock_exclusive_attributes demo_config 7 0 demo_obj) =
       ([Mutex_unlock 0], Some (demo_obj\<lparr>mMutex := None\<rparr>))
   \<and> dispatch demo_config 0 demo_obj = ([], Inr (0, demo_obj))"
  using empty_report_is_unlock [of demo_config demo_obj 7 "Some ''e.c''" 50]
    demo_normalize
  by (simp add: outcome_def demo_unlock_debug_run demo_unlock_run)

subsection \<open>Normalising the object ID\<close>

text \<open>
  C3. With the XA range below the SL range: an object ID of the XA range
  (\<^verbatim>\<open>XA_OBJECTID_ENGINE\<close> to \<^verbatim>\<open>XA_OBJECTID_CAMERADEVICE\<close>) is its own index; an object ID
  of the SL range (\<^verbatim>\<open>SL_OBJECTID_ENGINE\<close> to \<^verbatim>\<open>SL_OBJECTID_METADATAEXTRACTOR\<close>) has the
  index got by subtracting \<^verbatim>\<open>SL_OBJECTID_ENGINE - XA_OBJECTID_CAMERADEVICE - 1\<close>, which
  is \<^verbatim>\<open>XA_OBJECTID_CAMERADEVICE + 1\<close> plus its distance from the start of the SL range;
  any other object ID fails the assertion of line 124, and a report on such an object
  ends in a failed assertion with no event at all, so no handler of any row is invoked.
  Different object IDs have different indices, and the indices are exactly the values
  from \<^verbatim>\<open>XA_OBJECTID_ENGINE\<close> to \<^verbatim>\<open>XA_OBJECTID_CAMERADEVICE + 1\<close> plus the width of the SL
  range: one contiguous range.
\<close>

theorem objectID_normalization:
  assumes "objectIDs_wf c"
  shows
   "(XA_OBJECTID_ENGINE c \<le> oid \<and> oid \<le> XA_OBJECTID_CAMERADEVICE c \<longrightarrow>
       normalize_objectID c oid = ([], Inr oid))
    \<and> (SL_OBJECTID_ENGINE c \<le> oid \<and> oid \<le> SL_OBJECTID_METADATAEXTRACTOR c \<longrightarrow>
       normalize_objectID c oid =
         ([], Inr (oid - (SL_OBJECTID_ENGINE c - XA_OBJECTID_CAMERADEVICE c - 1)))
       \<and> unat (oid - (SL_OBJECTID_ENGINE c - XA_OBJECTID_CAMERADEVICE c - 1)) =
           unat (XA_OBJECTID_CAMERADEVICE c) + 1 + (unat oid - unat (SL_OBJECTID_ENGINE c)))
    \<and> (\<not> (XA_OBJECTID_ENGINE c \<le> oid \<and> oid \<le> XA_OBJECTID_CAMERADEVICE c)
       \<and> \<not> (SL_OBJECTID_ENGINE c \<le> oid \<and> oid \<le> SL_OBJECTID_METADATAEXTRACTOR c) \<longrightarrow>
       normalize_objectID c oid = ([], Inl (Assert_failed 124))
       \<and> (mObjectID obj = oid \<longrightarrow>
            fst (object_unlock_exclusive_attributes_body c dbg self M obj) = []
            \<and> (\<exists>l. snd (object_unlock_exclusive_attributes_body c dbg self M obj) =
                  Inl (Assert_failed l))))
    \<and> (normalize_objectID c oid = ([], Inr i) \<and> normalize_objectID c oid' = ([], Inr i) \<longrightarrow>
       oid = oid')
    \<and> ((\<exists>x. normalize_objectID c x = ([], Inr j)) \<longleftrightarrow>
         XA_OBJECTID_ENGINE c \<le> j \<and>
         unat j \<le> unat (XA_OBJECTID_CAMERADEVICE c) + 1 +
           (unat (SL_OBJECTID_METADATAEXTRACTOR c) - unat (SL_OBJECTID_ENGINE c)))"
proof -
  have b: "unat (oid - (SL_OBJECTID_ENGINE c - XA_OBJECTID_CAMERADEVICE c - 1)) =
           unat (XA_OBJECTID_CAMERADEVICE c) + 1 + (unat oid - unat (SL_OBJECTID_ENGINE c))"
    if "SL_OBJECTID_ENGINE c \<le> oid"
    using assms that by (intro unat_B) (simp_all add: objectIDs_wf_def)
  have out: "fst (object_unlock_exclusive_attributes_body c dbg self M obj) = []
            \<and> (\<exists>l. snd (object_unlock_exclusive_attributes_body c dbg self M obj) =
                  Inl (Assert_failed l))"
    if "normalize_objectID c oid = ([], Inl (Assert_failed 124))" "mObjectID obj = oid"
    using body_bad_category[of c obj dbg self M] that by simp
  from normalize_A[of c oid] normalize_B[OF assms, of oid] b normalize_out[of c oid] out
    normalize_inj[OF assms, of oid i oid'] normalize_image[OF assms, of j]
  show ?thesis by blast
qed

theorem objectID_normalization_witness:
  "objectIDs_wf demo_config
   \<and> normalize_objectID demo_config 5 = ([], Inr 5)
   \<and> normalize_objectID demo_config 4097 = ([], Inr 10)
   \<and> normalize_objectID demo_config 4106 = ([], Inr 19)
   \<and> normalize_objectID demo_config 10 = ([], Inl (Assert_failed 124))
   \<and> fst (object_unlock_exclusive_attributes_body demo_config None 7 36
             (demo_obj\<lparr>mObjectID := 10\<rparr>)) = []
   \<and> (\<exists>l. snd (object_unlock_exclusive_attributes_body demo_config None 7 36
             (demo_obj\<lparr>mObjectID := 10\<rparr>)) = Inl (Assert_failed l))
   \<and> (\<exists>x. normalize_objectID demo_config x = ([], Inr 11))"
proof -
  note t = objectID_normalization [OF demo_objectIDs_wf]
  have a: "normalize_objectID demo_config 5 = ([], Inr 5)"
    using t [of 5] by (simp add: demo_config_def)
  have b: "normalize_objectID demo_config 4097 = ([], Inr 10)"
    using t [of 4097] by (simp add: demo_config_def)
  have b': "normalize_objectID demo_config 4106 = ([], Inr 19)"
    using t [of 4106] by (simp add: demo_config_def)
  have o: "\<not> (XA_OBJECTID_ENGINE demo_config \<le> 10 \<and> 10 \<le> XA_OBJECTID_CAMERADEVICE demo_config)
       \<and> \<not> (SL_OBJECTID_ENGINE demo_config \<le> 10 \<and> 10 \<le> SL_OBJECTID_METADATAEXTRACTOR demo_config)"
    "mObjectID (demo_obj\<lparr>mObjectID := 10\<rparr>) = 10"
    by (simp_all add: demo_config_def)
  from t [of 10 "demo_obj\<lparr>mObjectID := 10\<rparr>" None 7 36] o
  have c: "normalize_objectID demo_config 10 = ([], Inl (Assert_failed 124))
   \<and> fst (object_unlock_exclusive_attributes_body demo_config None 7 36
             (demo_obj\<lparr>mObjectID := 10\<rparr>)) = []
   \<and> (\<exists>l. snd (object_unlock_exclusive_attributes_body demo_config None 7 36
             (demo_obj\<lparr>mObjectID := 10\<rparr>)) = Inl (Assert_failed l))"
    by blast
  have "XA_OBJECTID_ENGINE demo_config \<le> 11 \<and>
         unat (11 :: u32) \<le> unat (XA_OBJECTID_CAMERADEVICE demo_config) + 1 +
           (unat (SL_OBJECTID_METADATAEXTRACTOR demo_config) - unat (SL_OBJECTID_ENGINE demo_config))"
    by (simp add: demo_config_def)
  with t [of _ _ _ _ _ _ _ 11] have d: "\<exists>x. normalize_objectID demo_config x = ([], Inr 11)"
    by blast
  from demo_objectIDs_wf a b b' c d show ?thesis by blast
qed

end
